theory Spec2Isabelle
  imports Main "HOL-Library.Word"
begin

section \<open>Host/device transfers of the XLA device context\<close>

text \<open>
  A shallow embedding of \<^verbatim>\<open>tensorflow/compiler/jit/xla_device_context.cc\<close>.
  The C++ functions talk to collaborators (streams, the transfer manager, the XlaTensor
  handle, the completion callback). Every such call is appended to a log, in program
  order, and what a collaborator answers is read from a record of answers, so that each
  branch of the source is a branch of the model.
\<close>

subsection \<open>Statuses\<close>

text \<open>
  A formatted message keeps its pointer arguments apart from its text: the format
  \<^verbatim>\<open>"... on stream %p: %s"\<close> becomes text, a pointer, text, and the pieces of the
  inner message.
\<close>

datatype msg_part = Str string | Ptr nat

datatype Code = INTERNAL | INVALID_ARGUMENT | RESOURCE_EXHAUSTED | UNIMPLEMENTED | UNKNOWN

datatype Err = Err Code "msg_part list"

datatype Status = OK | Failed Err

fun error_message :: "Err \<Rightarrow> msg_part list" where
  "error_message (Err c m) = m"

fun error_code :: "Err \<Rightarrow> Code" where
  "error_code (Err c m) = c"

text \<open>
  The result of a C++ function: \<^verbatim>\<open>CHECK\<close> and \<^verbatim>\<open>TF_CHECK_OK\<close> end the process
  (\<open>Aborted\<close>); \<^verbatim>\<open>TF_RETURN_IF_ERROR\<close> and \<^verbatim>\<open>TF_RET_CHECK\<close> leave the enclosing
  function with a Status, the latter with an INTERNAL one when its condition is false.
\<close>

datatype 'a result = Aborted | Returned 'a

subsection \<open>Tensors, handles, streams\<close>

type_synonym Stream = nat
type_synonym Event = nat
type_synonym addr = nat
type_synonym byte = "8 word"
type_synonym TensorShape = "nat list"
type_synonym DataType = nat

text \<open>
  The host value container: declared shape and type, and the raw bytes behind
  \<^verbatim>\<open>DMAHelper::base\<close>. \<^verbatim>\<open>TotalBytes\<close> is the size of that buffer.
\<close>

record Tensor =
  t_shape :: TensorShape
  t_dtype :: DataType
  t_bytes :: "byte list"

definition num_elements :: "TensorShape \<Rightarrow> nat" where
  "num_elements s = prod_list s"

definition NumElements :: "Tensor \<Rightarrow> nat" where
  "NumElements t = num_elements (t_shape t)"

definition TotalBytes :: "Tensor \<Rightarrow> nat" where
  "TotalBytes t = length (t_bytes t)"

text \<open>
  Modelled from the spec: \<^verbatim>\<open>Tensor::CopyFrom\<close> is declared in tensor.h, which is
  not among the sources. It views the buffer of the other tensor under the given shape
  and returns false when the element counts differ.
\<close>

definition CopyFrom :: "Tensor \<Rightarrow> TensorShape \<Rightarrow> Tensor option" where
  "CopyFrom other s =
     (if NumElements other \<noteq> num_elements s then None
      else Some (other\<lparr>t_shape := s\<rparr>))"

record ShapedBuffer =
  sb_dtype :: DataType
  sb_shape :: TensorShape
  sb_ordinal :: nat
  sb_base :: addr

text \<open>
  Modelled from the spec: the device-resident value handle \<^verbatim>\<open>XlaTensor\<close>
  (xla_tensor.h is not among the sources): the device region once allocated, an optional
  definition event with the stream it was recorded on, an optional cached host value.
\<close>

record XlaTensor =
  shaped_buffer :: "ShapedBuffer option"
  definition_event :: "(Event \<times> Stream) option"
  host_tensor :: "Tensor option"

definition has_shaped_buffer :: "XlaTensor \<Rightarrow> bool" where
  "has_shaped_buffer x = (shaped_buffer x \<noteq> None)"

text \<open>
  \<^verbatim>\<open>XlaDeviceAllocator::AllocateRaw\<close> ignores alignment and size and always returns a
  fresh, empty XlaTensor.
\<close>

definition AllocateRaw :: "nat \<Rightarrow> nat \<Rightarrow> XlaTensor" where
  "AllocateRaw alignment num_bytes =
     \<lparr>shaped_buffer = None, definition_event = None, host_tensor = None\<rparr>"

definition Name :: string where
  "Name = ''xla''"

text \<open>
  A tensor on the XLA device: declared shape and type, and the XlaTensor its data slot
  points to (\<^verbatim>\<open>XlaTensor::FromTensor\<close>; \<open>None\<close> is the null result for a tensor that
  carries no such pointer).
\<close>

record DeviceTensor =
  d_shape :: TensorShape
  d_dtype :: DataType
  d_xla :: "XlaTensor option"

definition d_NumElements :: "DeviceTensor \<Rightarrow> nat" where
  "d_NumElements d = num_elements (d_shape d)"

subsection \<open>The log of calls and the device memory\<close>

text \<open>
  One constructor per call the source makes on a collaborator, with the arguments that
  matter: the layout function, the handle (\<^verbatim>\<open>AllocateShapedBuffer\<close>,
  \<^verbatim>\<open>ResetDefinitionEvent\<close>, \<^verbatim>\<open>WaitForDefinitionEventOnStream\<close>, \<^verbatim>\<open>set_host_tensor\<close>),
  the streams, the transfer manager, the event, the tensor references and the
  completion callback \<^verbatim>\<open>done\<close>. For \<^verbatim>\<open>ThenWaitForStream s other\<close> the stream \<open>s\<close>
  waits for \<open>other\<close>.

  Modelled from the spec: the device command stream (copy, block until done) is a
  collaborator outside the sources. Device memory is a map from addresses to bytes; a
  raw copy that was queued takes effect when the blocking drain of its stream reports
  OK, and nothing is said about memory when the drain fails. Structured transfers are
  only logged: their bytes are the transfer manager's business. Byte counts are natural
  numbers (\<^verbatim>\<open>total_bytes\<close> is a size read into an int64 and passed on as an unsigned
  size; the conversions are the identity below \<open>2^63\<close>).
\<close>

datatype action =
    CallShapeRepresentationFn TensorShape DataType
  | AllocateShapedBufferCall DataType TensorShape nat
  | ThenWaitForStream Stream Stream
  | TransferLiteralToDeviceAsync Stream Tensor ShapedBuffer
  | EventInit Event
  | ThenRecordEvent Stream Event
  | ResetDefinitionEvent Event Stream
  | ThenDoHostCallback Stream
  | WaitForDefinitionEventOnStream "(Event \<times> Stream) option" Stream
  | TransferLiteralFromDeviceCall Stream ShapedBuffer
  | ThenMemcpyToDevice Stream addr "byte list" nat
  | ThenMemcpyToHost Stream addr nat
  | BlockHostUntilDone Stream
  | Unref
  | SetHostTensor Tensor
  | Done Status

record world =
  trace :: "action list"
  dev_mem :: "addr \<Rightarrow> byte"

definition emit :: "action \<Rightarrow> world \<Rightarrow> world" where
  "emit a w = w\<lparr>trace := trace w @ [a]\<rparr>"

definition write_bytes :: "addr \<Rightarrow> byte list \<Rightarrow> (addr \<Rightarrow> byte) \<Rightarrow> (addr \<Rightarrow> byte)" where
  "write_bytes base bs m = (\<lambda>a. if base \<le> a \<and> a < base + length bs then bs ! (a - base) else m a)"

definition read_bytes :: "(addr \<Rightarrow> byte) \<Rightarrow> addr \<Rightarrow> nat \<Rightarrow> byte list" where
  "read_bytes m base n = map (\<lambda>i. m (base + i)) [0..<n]"

text \<open>Which calls act on a stream, and on which one.\<close>

fun stream_of :: "action \<Rightarrow> Stream option" where
  "stream_of (ThenWaitForStream s other) = Some s"
| "stream_of (TransferLiteralToDeviceAsync s t b) = Some s"
| "stream_of (ThenRecordEvent s e) = Some s"
| "stream_of (ThenDoHostCallback s) = Some s"
| "stream_of (WaitForDefinitionEventOnStream e s) = Some s"
| "stream_of (TransferLiteralFromDeviceCall s b) = Some s"
| "stream_of (ThenMemcpyToDevice s a bs n) = Some s"
| "stream_of (ThenMemcpyToHost s a n) = Some s"
| "stream_of (BlockHostUntilDone s) = Some s"
| "stream_of a = None"

definition touches_stream :: "action \<Rightarrow> bool" where
  "touches_stream a = (stream_of a \<noteq> None)"

fun is_stream_wait :: "action \<Rightarrow> bool" where
  "is_stream_wait (ThenWaitForStream s other) = True"
| "is_stream_wait a = False"

fun is_allocation :: "action \<Rightarrow> bool" where
  "is_allocation (AllocateShapedBufferCall d s n) = True"
| "is_allocation a = False"

fun is_event_record :: "action \<Rightarrow> bool" where
  "is_event_record (ThenRecordEvent s e) = True"
| "is_event_record (ResetDefinitionEvent e s) = True"
| "is_event_record a = False"

fun done_calls :: "action list \<Rightarrow> Status list" where
  "done_calls [] = []"
| "done_calls (Done s # as) = s # done_calls as"
| "done_calls (a # as) = done_calls as"

subsection \<open>The transfer context and the collaborators' answers\<close>

record XlaDeviceContext =
  compute_stream :: Stream
  host_to_device_stream :: Stream
  device_to_host_stream :: Stream
  transfer_as_literal :: bool
  shape_representation_fn :: "TensorShape \<Rightarrow> DataType \<Rightarrow> Err + TensorShape"
  device_ordinal :: nat

text \<open>
  The constructor: the three streams are given (a null stream fails a \<^verbatim>\<open>CHECK\<close>; here a
  stream is \<open>None\<close> when null), and a missing layout function becomes the identity.
\<close>

definition default_shape_representation_fn ::
  "(TensorShape \<Rightarrow> DataType \<Rightarrow> Err + TensorShape) option \<Rightarrow> TensorShape \<Rightarrow> DataType \<Rightarrow> Err + TensorShape" where
  "default_shape_representation_fn fn =
     (case fn of None \<Rightarrow> (\<lambda>shape dtype. Inr shape) | Some f \<Rightarrow> f)"

definition new_XlaDeviceContext ::
  "Stream option \<Rightarrow> Stream option \<Rightarrow> Stream option \<Rightarrow> bool \<Rightarrow>
   (TensorShape \<Rightarrow> DataType \<Rightarrow> Err + TensorShape) option \<Rightarrow> nat \<Rightarrow> XlaDeviceContext result" where
  "new_XlaDeviceContext cs h2d d2h as_literal fn ordinal =
     (case h2d of None \<Rightarrow> Aborted | Some h \<Rightarrow>
       (case d2h of None \<Rightarrow> Aborted | Some d \<Rightarrow>
         (case cs of None \<Rightarrow> Aborted | Some c \<Rightarrow>
            Returned \<lparr>compute_stream = c, host_to_device_stream = h,
                      device_to_host_stream = d, transfer_as_literal = as_literal,
                      shape_representation_fn = default_shape_representation_fn fn,
                      device_ordinal = ordinal\<rparr>)))"

text \<open>
  Modelled from the spec: \<^verbatim>\<open>UseMultipleStreams\<close> is an inline member of the header
  (not among the sources): the context is multi-stream when host-to-device copies do not
  run on the compute stream.
\<close>

definition UseMultipleStreams :: "XlaDeviceContext \<Rightarrow> bool" where
  "UseMultipleStreams c = (compute_stream c \<noteq> host_to_device_stream c)"

text \<open>What the collaborators answer during one call.\<close>

record answers =
  allocation :: "Err + addr"
  TensorShapeToXLAShape :: "DataType \<Rightarrow> TensorShape \<Rightarrow> Status"
  CanShapedBufferBeAccessedNow :: bool
  TransferLiteralToDeviceAsync_status :: Status
  new_event :: Event
  event_Init :: bool
  BlockHostUntilDone_status :: "Stream \<Rightarrow> Status"
  HostTensorToMutableBorrowingLiteral :: Status

subsection \<open>Helpers of the handle\<close>

text \<open>
  Modelled from the spec: \<^verbatim>\<open>XlaTensor::AllocateShapedBuffer\<close> (not among the sources)
  binds a device buffer for the given type and shape on the given device ordinal; when
  the device buffer cannot be bound the handle is left as it was and the error is
  returned.
\<close>

definition AllocateShapedBuffer ::
  "answers \<Rightarrow> DataType \<Rightarrow> TensorShape \<Rightarrow> nat \<Rightarrow> XlaTensor \<Rightarrow> world \<Rightarrow> Status \<times> XlaTensor \<times> world" where
  "AllocateShapedBuffer e dtype shape ordinal x w =
     (let w' = emit (AllocateShapedBufferCall dtype shape ordinal) w in
      case allocation e of
        Inl err \<Rightarrow> (Failed err, x, w')
      | Inr base \<Rightarrow>
          (OK, x\<lparr>shaped_buffer := Some \<lparr>sb_dtype = dtype, sb_shape = shape,
                                        sb_ordinal = ordinal, sb_base = base\<rparr>\<rparr>, w'))"

text \<open>
  Modelled from the spec: \<^verbatim>\<open>XlaTensor::ResetDefinitionEvent\<close> attaches the event, with
  the stream it was recorded on, as the handle's definition event, and
  \<^verbatim>\<open>set_host_tensor\<close> caches the host value.
\<close>

definition ResetDefinitionEvent_on :: "Event \<Rightarrow> Stream \<Rightarrow> XlaTensor \<Rightarrow> XlaTensor" where
  "ResetDefinitionEvent_on ev s x = x\<lparr>definition_event := Some (ev, s)\<rparr>"

definition set_host_tensor :: "Tensor \<Rightarrow> XlaTensor \<Rightarrow> XlaTensor" where
  "set_host_tensor t x = x\<lparr>host_tensor := Some t\<rparr>"

subsection \<open>Error values built by the source\<close>

definition RET_CHECK_failure :: "string \<Rightarrow> string \<Rightarrow> Err" where
  "RET_CHECK_failure condition streamed =
     Err INTERNAL [Str ''RET_CHECK failure '', Str condition, Str '' '', Str streamed]"

definition CopyFrom_failed :: Err where
  "CopyFrom_failed =
     Err INTERNAL [Str ''Tensor::CopyFrom failed when copying from CPU to XLA device'']"

definition transfer_failed :: "Stream \<Rightarrow> Err \<Rightarrow> Err" where
  "transfer_failed s block_err =
     Err INTERNAL ([Str ''Failed to complete data transfer on stream '', Ptr s, Str '': '']
                   @ error_message block_err)"

definition names_stream :: "Stream \<Rightarrow> Status \<Rightarrow> bool" where
  "names_stream s st = (case st of OK \<Rightarrow> False | Failed err \<Rightarrow> Ptr s \<in> set (error_message err))"

subsection \<open>TransferLiteralToDevice (lines 78-114)\<close>

text \<open>
  The asynchronous transfer is logged when it is issued, whatever status it returns.
  Line 104, \<^verbatim>\<open>TF_RET_CHECK(event->Init()) << "Event failed to initialize!"\<close>, returns an
  INTERNAL status built from the condition and the streamed text when the event cannot
  be initialised; lines 105-111 are then not reached.
\<close>

definition TransferLiteralToDevice ::
  "XlaDeviceContext \<Rightarrow> answers \<Rightarrow> Tensor \<Rightarrow> XlaTensor \<Rightarrow> world \<Rightarrow> (Status \<times> XlaTensor \<times> world) result" where
  "TransferLiteralToDevice c e host xla_tensor w =
     (case TensorShapeToXLAShape e (t_dtype host) (t_shape host) of
        Failed err \<Rightarrow> Returned (Failed err, xla_tensor, w)
      | OK \<Rightarrow>
         (case shaped_buffer xla_tensor of
            None \<Rightarrow> Aborted
          | Some sb \<Rightarrow>
             (let h2d = host_to_device_stream c;
                  w1 = (if UseMultipleStreams c \<and> \<not> CanShapedBufferBeAccessedNow e
                        then emit (ThenWaitForStream h2d (compute_stream c)) w else w);
                  w2 = emit (TransferLiteralToDeviceAsync h2d host sb) w1
              in case TransferLiteralToDeviceAsync_status e of
                   Failed err \<Rightarrow> Returned (Failed err, xla_tensor, w2)
                 | OK \<Rightarrow>
                    if UseMultipleStreams c then
                      (let ev = new_event e; w3 = emit (EventInit ev) w2 in
                       if \<not> event_Init e
                       then Returned (Failed (RET_CHECK_failure ''event->Init()''
                                                ''Event failed to initialize!''), xla_tensor, w3)
                       else
                         (let w4 = emit (ThenRecordEvent h2d ev) w3;
                              w5 = emit (ResetDefinitionEvent ev h2d) w4;
                              w6 = emit (ThenDoHostCallback h2d) w5
                          in Returned (OK, ResetDefinitionEvent_on ev h2d xla_tensor, w6)))
                    else Returned (OK, xla_tensor, emit (ThenDoHostCallback h2d) w2))))"

subsection \<open>TransferLiteralFromDevice (lines 116-136)\<close>

text \<open>
  The call hands the transfer manager a callback; the manager runs it when the transfer
  has finished, with the transfer's status: \<open>TransferLiteralFromDevice_callback\<close>.
\<close>

definition TransferLiteralFromDevice_callback :: "Status \<Rightarrow> world \<Rightarrow> world" where
  "TransferLiteralFromDevice_callback status w = emit (Done status) (emit Unref w)"

definition TransferLiteralFromDevice ::
  "XlaDeviceContext \<Rightarrow> answers \<Rightarrow> Tensor \<Rightarrow> XlaTensor \<Rightarrow> world \<Rightarrow> (Tensor \<times> world) result" where
  "TransferLiteralFromDevice c e host xla_tensor w =
     (case HostTensorToMutableBorrowingLiteral e of
        Failed err \<Rightarrow> Aborted
      | OK \<Rightarrow>
         (case shaped_buffer xla_tensor of
            None \<Rightarrow> Aborted
          | Some sb \<Rightarrow>
              Returned (host, emit (TransferLiteralFromDeviceCall (device_to_host_stream c) sb) w)))"

subsection \<open>CopyCPUTensorToDevice (lines 138-204)\<close>

text \<open>
  Lines 200-203: cache the host value when the status is OK, then run the callback.
\<close>

definition finish_copy ::
  "Tensor \<Rightarrow> DeviceTensor \<Rightarrow> Status \<Rightarrow> XlaTensor \<Rightarrow> world \<Rightarrow> (DeviceTensor \<times> world) result" where
  "finish_copy cpu_tensor device_tensor status x w =
     (if status = OK
      then Returned (device_tensor\<lparr>d_xla := Some (set_host_tensor cpu_tensor x)\<rparr>,
                     emit (Done status) (emit (SetHostTensor cpu_tensor) w))
      else Returned (device_tensor\<lparr>d_xla := Some x\<rparr>, emit (Done status) w))"

text \<open>
  Lines 179-203: the transfer itself, once the layout is resolved to \<open>shape\<close> and the
  handle \<open>x1\<close> has gone through the binding step. \<^verbatim>\<open>DeviceMemoryFromTensor\<close> checks that
  the handle has a buffer.
\<close>

definition transfer_after_binding ::
  "XlaDeviceContext \<Rightarrow> answers \<Rightarrow> Tensor \<Rightarrow> DeviceTensor \<Rightarrow> TensorShape \<Rightarrow> XlaTensor \<Rightarrow> world \<Rightarrow>
   (DeviceTensor \<times> world) result" where
  "transfer_after_binding c e cpu_tensor device_tensor shape x1 w2 =
     (let total_bytes = TotalBytes cpu_tensor in
      if transfer_as_literal c then
        (case CopyFrom cpu_tensor shape of
           None \<Rightarrow> Returned (device_tensor\<lparr>d_xla := Some x1\<rparr>,
                             emit (Done (Failed CopyFrom_failed)) w2)
         | Some reshaped_cpu_tensor \<Rightarrow>
            (case TransferLiteralToDevice c e reshaped_cpu_tensor x1 w2 of
               Aborted \<Rightarrow> Aborted
             | Returned (status, x2, w3) \<Rightarrow>
                 finish_copy cpu_tensor device_tensor status x2 w3))
      else
        (case shaped_buffer x1 of
           None \<Rightarrow> Aborted
         | Some sb \<Rightarrow>
            (let h2d = host_to_device_stream c;
                 src = take total_bytes (t_bytes cpu_tensor);
                 w3 = emit (ThenMemcpyToDevice h2d (sb_base sb) src total_bytes) w2;
                 w4 = emit (BlockHostUntilDone h2d) w3
             in case BlockHostUntilDone_status e h2d of
                  Failed block_err \<Rightarrow>
                    finish_copy cpu_tensor device_tensor
                      (Failed (transfer_failed h2d block_err)) x1 w4
                | OK \<Rightarrow>
                    finish_copy cpu_tensor device_tensor OK x1
                      (w4\<lparr>dev_mem := write_bytes (sb_base sb) src (dev_mem w4)\<rparr>))))"

text \<open>
  Lines 142-177: the empty case, the check that the device tensor carries an XlaTensor,
  the layout function, and the binding of a device buffer when the handle has none.
\<close>

definition CopyCPUTensorToDevice ::
  "XlaDeviceContext \<Rightarrow> answers \<Rightarrow> Tensor \<Rightarrow> DeviceTensor \<Rightarrow> world \<Rightarrow> (DeviceTensor \<times> world) result" where
  "CopyCPUTensorToDevice c e cpu_tensor device_tensor w =
     (if NumElements cpu_tensor = 0 then Returned (device_tensor, emit (Done OK) w)
      else
        case d_xla device_tensor of
          None \<Rightarrow> Aborted
        | Some xla_tensor \<Rightarrow>
           (let w1 = emit (CallShapeRepresentationFn (d_shape device_tensor) (d_dtype device_tensor)) w in
            case shape_representation_fn c (d_shape device_tensor) (d_dtype device_tensor) of
              Inl err \<Rightarrow> Returned (device_tensor, emit (Done (Failed err)) w1)
            | Inr shape \<Rightarrow>
               (if \<not> has_shaped_buffer xla_tensor
                then
                  (case AllocateShapedBuffer e (d_dtype device_tensor) shape
                          (device_ordinal c) xla_tensor w1 of
                     (Failed s, x1, w2) \<Rightarrow>
                        Returned (device_tensor\<lparr>d_xla := Some x1\<rparr>, emit (Done (Failed s)) w2)
                   | (OK, x1, w2) \<Rightarrow>
                        transfer_after_binding c e cpu_tensor device_tensor shape x1 w2)
                else transfer_after_binding c e cpu_tensor device_tensor shape xla_tensor w1)))"

subsection \<open>CopyDeviceTensorToCPU (lines 206-247)\<close>

text \<open>
  \<^verbatim>\<open>DeviceMemoryFromTensor\<close> (line 224) checks that the handle has a buffer, and line
  229 dereferences the XlaTensor: a device tensor without one, or with an unbound one,
  ends the process. In raw mode the bytes are read from the device memory when the
  drain reports OK; the failure message of line 240 is formatted with
  \<^verbatim>\<open>stream_.get()\<close>, the compute stream.
\<close>

definition CopyDeviceTensorToCPU ::
  "XlaDeviceContext \<Rightarrow> answers \<Rightarrow> DeviceTensor \<Rightarrow> Tensor \<Rightarrow> world \<Rightarrow> (Tensor \<times> world) result" where
  "CopyDeviceTensorToCPU c e device_tensor cpu_tensor w =
     (if d_NumElements device_tensor = 0 then Returned (cpu_tensor, emit (Done OK) w)
      else
        let total_bytes = TotalBytes cpu_tensor in
        case d_xla device_tensor of
          None \<Rightarrow> Aborted
        | Some xla_tensor \<Rightarrow>
           (case shaped_buffer xla_tensor of
              None \<Rightarrow> Aborted
            | Some sb \<Rightarrow>
               (let d2h = device_to_host_stream c;
                    w1 = emit (WaitForDefinitionEventOnStream (definition_event xla_tensor) d2h) w
                in if transfer_as_literal c
                   then TransferLiteralFromDevice c e cpu_tensor xla_tensor w1
                   else
                     (let w2 = emit (ThenMemcpyToHost d2h (sb_base sb) total_bytes) w1;
                          w3 = emit (BlockHostUntilDone d2h) w2
                      in case BlockHostUntilDone_status e d2h of
                           Failed block_err \<Rightarrow>
                             Returned (cpu_tensor,
                               emit (Done (Failed (transfer_failed (compute_stream c) block_err))) w3)
                         | OK \<Rightarrow>
                             Returned (cpu_tensor\<lparr>t_bytes := read_bytes (dev_mem w3) (sb_base sb) total_bytes\<rparr>,
                               emit (Done OK) w3)))))"

subsection \<open>Sequences of copies to one destination\<close>

text \<open>
  Repeated \<^verbatim>\<open>CopyCPUTensorToDevice\<close> calls on the same device tensor, each with its own
  context, answers and host value; the result lists the device tensor after every call.
\<close>

fun copies ::
  "(XlaDeviceContext \<times> answers \<times> Tensor) list \<Rightarrow> DeviceTensor \<Rightarrow> world \<Rightarrow> (DeviceTensor list \<times> world) result" where
  "copies [] d w = Returned ([], w)"
| "copies ((c, e, t) # rest) d w =
     (case CopyCPUTensorToDevice c e t d w of
        Aborted \<Rightarrow> Aborted
      | Returned (d', w') \<Rightarrow>
         (case copies rest d' w' of
            Aborted \<Rightarrow> Aborted
          | Returned (ds, w'') \<Rightarrow> Returned (d' # ds, w'')))"

definition buffer_of :: "DeviceTensor \<Rightarrow> ShapedBuffer option" where
  "buffer_of d = (case d_xla d of None \<Rightarrow> None | Some x \<Rightarrow> shaped_buffer x)"

definition event_of :: "DeviceTensor \<Rightarrow> (Event \<times> Stream) option" where
  "event_of d = (case d_xla d of None \<Rightarrow> None | Some x \<Rightarrow> definition_event x)"

definition bound :: "DeviceTensor \<Rightarrow> bool" where
  "bound d = (buffer_of d \<noteq> None)"

text \<open>The number of steps from Empty to Bound along a list of successive states.\<close>

fun bindings :: "DeviceTensor list \<Rightarrow> nat" where
  "bindings (a # b # rest) = (if \<not> bound a \<and> bound b then 1 else 0) + bindings (b # rest)"
| "bindings ds = 0"

definition new_actions :: "world \<Rightarrow> world \<Rightarrow> action list" where
  "new_actions w w' = drop (length (trace w)) (trace w')"

subsection \<open>Concrete inputs\<close>

definition identity_layout :: "TensorShape \<Rightarrow> DataType \<Rightarrow> Err + TensorShape" where
  "identity_layout shape dtype = Inr shape"

definition rejecting_layout :: "TensorShape \<Rightarrow> DataType \<Rightarrow> Err + TensorShape" where
  "rejecting_layout shape dtype = Inl (Err INVALID_ARGUMENT [Str ''unsupported shape''])"

definition padding_layout :: "TensorShape \<Rightarrow> DataType \<Rightarrow> Err + TensorShape" where
  "padding_layout shape dtype = Inr (2 # shape)"

definition ctx_multi :: "bool \<Rightarrow> XlaDeviceContext" where
  "ctx_multi as_literal =
     \<lparr>compute_stream = 0, host_to_device_stream = 1, device_to_host_stream = 2,
      transfer_as_literal = as_literal, shape_representation_fn = identity_layout,
      device_ordinal = 0\<rparr>"

definition ctx_single :: "bool \<Rightarrow> XlaDeviceContext" where
  "ctx_single as_literal =
     \<lparr>compute_stream = 0, host_to_device_stream = 0, device_to_host_stream = 0,
      transfer_as_literal = as_literal, shape_representation_fn = identity_layout,
      device_ordinal = 0\<rparr>"

definition answers_ok :: answers where
  "answers_ok =
     \<lparr>allocation = Inr 4096, TensorShapeToXLAShape = (\<lambda>dtype shape. OK),
      CanShapedBufferBeAccessedNow = False, TransferLiteralToDeviceAsync_status = OK,
      new_event = 7, event_Init = True, BlockHostUntilDone_status = (\<lambda>s. OK),
      HostTensorToMutableBorrowingLiteral = OK\<rparr>"

definition out_of_memory :: Err where
  "out_of_memory = Err RESOURCE_EXHAUSTED [Str ''out of memory'']"

definition stream_error :: Err where
  "stream_error = Err INTERNAL [Str ''stream did not block host until done'']"

definition host_ones :: Tensor where
  "host_ones = \<lparr>t_shape = [4], t_dtype = 1,
                 t_bytes = [0, 0, 128, 63, 0, 0, 128, 63, 0, 0, 128, 63, 0, 0, 128, 63]\<rparr>"

definition host_zeros :: Tensor where
  "host_zeros = \<lparr>t_shape = [4], t_dtype = 1,
                  t_bytes = [0, 0, 0, 0, 0, 0, 0, 0, 0, 0, 0, 0, 0, 0, 0, 0]\<rparr>"

definition host_empty :: Tensor where
  "host_empty = \<lparr>t_shape = [0], t_dtype = 1, t_bytes = []\<rparr>"

definition dev_fresh :: "TensorShape \<Rightarrow> DeviceTensor" where
  "dev_fresh shape = \<lparr>d_shape = shape, d_dtype = 1, d_xla = Some (AllocateRaw 64 0)\<rparr>"

definition world0 :: world where
  "world0 = \<lparr>trace = [], dev_mem = (\<lambda>a. 0)\<rparr>"

text \<open>Projections of a result, for stating what a call did at a concrete input.\<close>

definition trace_of :: "('a \<times> world) result \<Rightarrow> action list option" where
  "trace_of r = (case r of Aborted \<Rightarrow> None | Returned (x, w) \<Rightarrow> Some (trace w))"

definition value_of :: "('a \<times> world) result \<Rightarrow> 'a option" where
  "value_of r = (case r of Aborted \<Rightarrow> None | Returned (x, w) \<Rightarrow> Some x)"

text \<open>States reached from \<open>dev_fresh [4]\<close> by one successful copy of \<open>host_ones\<close>.\<close>

definition sb4 :: ShapedBuffer where
  "sb4 = \<lparr>sb_dtype = 1, sb_shape = [4], sb_ordinal = 0, sb_base = 4096\<rparr>"

definition dev_written_literal :: DeviceTensor where
  "dev_written_literal =
     \<lparr>d_shape = [4], d_dtype = 1,
      d_xla = Some \<lparr>shaped_buffer = Some sb4, definition_event = Some (7, 1),
                     host_tensor = Some host_ones\<rparr>\<rparr>"

definition world_written_literal :: world where
  "world_written_literal =
     \<lparr>trace = [CallShapeRepresentationFn [4] 1, AllocateShapedBufferCall 1 [4] 0,
                ThenWaitForStream 1 0, TransferLiteralToDeviceAsync 1 host_ones sb4,
                EventInit 7, ThenRecordEvent 1 7, ResetDefinitionEvent 7 1,
                ThenDoHostCallback 1, SetHostTensor host_ones, Done OK],
      dev_mem = (\<lambda>a. 0)\<rparr>"

definition dev_written_raw :: DeviceTensor where
  "dev_written_raw =
     \<lparr>d_shape = [4], d_dtype = 1,
      d_xla = Some \<lparr>shaped_buffer = Some sb4, definition_event = None,
                     host_tensor = Some host_ones\<rparr>\<rparr>"

definition world_written_raw :: world where
  "world_written_raw =
     \<lparr>trace = [CallShapeRepresentationFn [4] 1, AllocateShapedBufferCall 1 [4] 0,
                ThenMemcpyToDevice 1 4096 (t_bytes host_ones) 16, BlockHostUntilDone 1,
                SetHostTensor host_ones, Done OK],
      dev_mem = write_bytes 4096 (t_bytes host_ones) (\<lambda>a. 0)\<rparr>"

text \<open>
  The state reached from \<open>dev_fresh [4]\<close> by a structured copy whose event cannot be
  initialised: bound, without definition event, without cached host value.
\<close>

definition dev_after_init_failure :: DeviceTensor where
  "dev_after_init_failure =
     \<lparr>d_shape = [4], d_dtype = 1,
      d_xla = Some \<lparr>shaped_buffer = Some sb4, definition_event = None,
                     host_tensor = None\<rparr>\<rparr>"

definition answers_event_init_fails :: answers where
  "answers_event_init_fails = answers_ok\<lparr>event_Init := False\<rparr>"

definition answers_allocation_fails :: answers where
  "answers_allocation_fails = answers_ok\<lparr>allocation := Inl out_of_memory\<rparr>"

definition answers_d2h_fails :: answers where
  "answers_d2h_fails =
     answers_ok\<lparr>BlockHostUntilDone_status := (\<lambda>s. if s = 2 then Failed stream_error else OK)\<rparr>"

definition answers_h2d_fails :: answers where
  "answers_h2d_fails =
     answers_ok\<lparr>BlockHostUntilDone_status := (\<lambda>s. if s = 1 then Failed stream_error else OK)\<rparr>"

text \<open>
  Three raw copies to one fresh destination: the first allocation fails, the second
  succeeds, the third finds the buffer bound (its allocator would answer another address).
\<close>

definition three_copies :: "(XlaDeviceContext \<times> answers \<times> Tensor) list" where
  "three_copies =
     [(ctx_multi False, answers_allocation_fails, host_ones),
      (ctx_multi False, answers_ok, host_ones),
      (ctx_multi False, answers_ok\<lparr>allocation := Inr 8192\<rparr>, host_ones)]"

section \<open>Properties\<close>

subsection \<open>Auxiliary facts\<close>

lemmas input_defs =
  ctx_multi_def answers_ok_def host_ones_def dev_fresh_def world0_def identity_layout_def
  AllocateRaw_def sb4_def NumElements_def d_NumElements_def num_elements_def TotalBytes_def
  CopyFrom_def UseMultipleStreams_def has_shaped_buffer_def

lemmas run_defs =
  CopyCPUTensorToDevice_def transfer_after_binding_def TransferLiteralToDevice_def
  finish_copy_def AllocateShapedBuffer_def CopyDeviceTensorToCPU_def
  TransferLiteralFromDevice_def emit_def Let_def ResetDefinitionEvent_on_def
  set_host_tensor_def

lemma finish_copy_eq:
  "finish_copy cpu d st x w =
     Returned (d\<lparr>d_xla := Some (if st = OK then set_host_tensor cpu x else x)\<rparr>,
               w\<lparr>trace := trace w @ (if st = OK then [SetHostTensor cpu] else []) @ [Done st]\<rparr>)"
  by (simp add: finish_copy_def emit_def)

lemma reach_transfer:
  assumes "NumElements cpu \<noteq> 0" "d_xla d = Some h"
    "shape_representation_fn c (d_shape d) (d_dtype d) = Inr shape"
    "has_shaped_buffer h \<or> allocation e = Inr base"
  obtains x1 sb where
    "CopyCPUTensorToDevice c e cpu d w =
       transfer_after_binding c e cpu d shape x1
         (w\<lparr>trace := trace w @ [CallShapeRepresentationFn (d_shape d) (d_dtype d)] @
            (if has_shaped_buffer h then []
             else [AllocateShapedBufferCall (d_dtype d) shape (device_ordinal c)])\<rparr>)"
    "shaped_buffer x1 = Some sb" "definition_event x1 = definition_event h"
    "host_tensor x1 = host_tensor h" "has_shaped_buffer h \<Longrightarrow> x1 = h"
proof (cases "has_shaped_buffer h")
  case True
  then obtain sb where "shaped_buffer h = Some sb"
    by (auto simp: has_shaped_buffer_def)
  with True assms that[of h sb] show ?thesis
    by (simp add: CopyCPUTensorToDevice_def emit_def Let_def)
next
  case False
  with assms have a: "allocation e = Inr base" by simp
  let ?sb = "\<lparr>sb_dtype = d_dtype d, sb_shape = shape, sb_ordinal = device_ordinal c, sb_base = base\<rparr>"
  show ?thesis
    using False assms(1-3) a that[of "h\<lparr>shaped_buffer := Some ?sb\<rparr>" ?sb]
    by (simp add: CopyCPUTensorToDevice_def AllocateShapedBuffer_def emit_def Let_def)
qed

lemma success_reaches_transfer:
  assumes "NumElements cpu \<noteq> 0" "d_xla d = Some h"
    "CopyCPUTensorToDevice c e cpu d w = Returned (d1, w1)" "last (trace w1) = Done OK"
  obtains shape base where
    "shape_representation_fn c (d_shape d) (d_dtype d) = Inr shape"
    "has_shaped_buffer h \<or> allocation e = Inr base"
proof (cases "shape_representation_fn c (d_shape d) (d_dtype d)")
  case (Inl err)
  with assms show ?thesis
    by (auto simp: CopyCPUTensorToDevice_def emit_def Let_def)
next
  case layout: (Inr shape)
  show ?thesis
  proof (cases "has_shaped_buffer h")
    case True
    with layout that show ?thesis by blast
  next
    case False
    show ?thesis
    proof (cases "allocation e")
      case (Inl err)
      with assms layout False show ?thesis
        by (auto simp: CopyCPUTensorToDevice_def AllocateShapedBuffer_def emit_def Let_def)
    next
      case (Inr base)
      with layout that show ?thesis by blast
    qed
  qed
qed

lemma TransferLiteralToDevice_issues:
  assumes "TensorShapeToXLAShape e (t_dtype host) (t_shape host) = OK" "shaped_buffer x = Some sb"
  shows "\<exists>st x' w' post. TransferLiteralToDevice c e host x w = Returned (st, x', w') \<and>
     trace w' = trace w @
       (if UseMultipleStreams c \<and> \<not> CanShapedBufferBeAccessedNow e
        then [ThenWaitForStream (host_to_device_stream c) (compute_stream c)] else []) @
       [TransferLiteralToDeviceAsync (host_to_device_stream c) host sb] @ post \<and>
     \<not> list_ex is_stream_wait post \<and> shaped_buffer x' = Some sb"
  using assms
  by (cases "TransferLiteralToDeviceAsync_status e")
     (simp_all add: TransferLiteralToDevice_def emit_def Let_def ResetDefinitionEvent_on_def)

lemma read_write_bytes: "read_bytes (write_bytes base bs m) base (length bs) = bs"
  by (auto simp: read_bytes_def write_bytes_def intro!: nth_equalityI)

lemma done_calls_append: "done_calls (xs @ ys) = done_calls xs @ done_calls ys"
  by (induction xs rule: done_calls.induct) simp_all

lemma TransferLiteralToDevice_bound:
  assumes "shaped_buffer x = Some sb"
  shows "\<exists>st x' w' acts. TransferLiteralToDevice c e host x w = Returned (st, x', w') \<and>
     trace w' = trace w @ acts \<and> done_calls acts = [] \<and> \<not> list_ex is_allocation acts \<and>
     shaped_buffer x' = Some sb"
  using assms
  by (cases "TensorShapeToXLAShape e (t_dtype host) (t_shape host)";
      cases "TransferLiteralToDeviceAsync_status e")
     (simp_all add: TransferLiteralToDevice_def emit_def Let_def ResetDefinitionEvent_on_def)

lemma raw_transfer_ok:
  assumes "\<not> transfer_as_literal c" "shaped_buffer x1 = Some sb"
    "BlockHostUntilDone_status e (host_to_device_stream c) = OK"
  shows "transfer_after_binding c e cpu d shape x1 w2 =
       Returned (d\<lparr>d_xla := Some (set_host_tensor cpu x1)\<rparr>,
         w2\<lparr>trace := trace w2 @
               [ThenMemcpyToDevice (host_to_device_stream c) (sb_base sb) (t_bytes cpu) (TotalBytes cpu),
                BlockHostUntilDone (host_to_device_stream c), SetHostTensor cpu, Done OK],
             dev_mem := write_bytes (sb_base sb) (t_bytes cpu) (dev_mem w2)\<rparr>)"
  using assms
  by (simp add: transfer_after_binding_def finish_copy_eq emit_def Let_def TotalBytes_def)

lemma raw_transfer_failed:
  assumes "\<not> transfer_as_literal c" "shaped_buffer x1 = Some sb"
    "BlockHostUntilDone_status e (host_to_device_stream c) = Failed block_err"
  shows "transfer_after_binding c e cpu d shape x1 w2 =
       Returned (d\<lparr>d_xla := Some x1\<rparr>,
         w2\<lparr>trace := trace w2 @
               [ThenMemcpyToDevice (host_to_device_stream c) (sb_base sb) (t_bytes cpu) (TotalBytes cpu),
                BlockHostUntilDone (host_to_device_stream c),
                Done (Failed (transfer_failed (host_to_device_stream c) block_err))]\<rparr>)"
  using assms
  by (simp add: transfer_after_binding_def finish_copy_eq emit_def Let_def TotalBytes_def)

lemma transfer_after_binding_bound:
  assumes "shaped_buffer x1 = Some sb"
  shows "\<exists>d' x' w' acts st. transfer_after_binding c e cpu d shape x1 w2 = Returned (d', w') \<and>
     d_xla d' = Some x' \<and> d_shape d' = d_shape d \<and> d_dtype d' = d_dtype d \<and>
     trace w' = trace w2 @ acts @ [Done st] \<and> done_calls acts = [] \<and>
     shaped_buffer x' = Some sb \<and> \<not> list_ex is_allocation acts \<and>
     (\<not> transfer_as_literal c \<longrightarrow>
        definition_event x' = definition_event x1 \<and> \<not> list_ex is_event_record acts)"
proof (cases "transfer_as_literal c")
  case False
  show ?thesis
  proof (cases "BlockHostUntilDone_status e (host_to_device_stream c)")
    case OK
    show ?thesis
      unfolding raw_transfer_ok[OF False assms OK] using assms False
      by (simp add: set_host_tensor_def)
  next
    case (Failed block_err)
    show ?thesis
      unfolding raw_transfer_failed[OF False assms Failed] using assms False
      by simp
  qed
next
  case True
  show ?thesis
  proof (cases "CopyFrom cpu shape")
    case None
    with True assms show ?thesis
      by (simp add: transfer_after_binding_def emit_def)
  next
    case (Some r)
    from TransferLiteralToDevice_bound[OF assms, of c e r w2] obtain st x2 w3 acts where
      tl: "TransferLiteralToDevice c e r x1 w2 = Returned (st, x2, w3)"
      and tr: "trace w3 = trace w2 @ acts" and dc: "done_calls acts = []"
      and al: "\<not> list_ex is_allocation acts" and sb: "shaped_buffer x2 = Some sb"
      by blast
    show ?thesis
      using True Some tl tr dc al sb
      by (cases "st = OK")
         (simp_all add: transfer_after_binding_def finish_copy_eq set_host_tensor_def
                        done_calls_append)
  qed
qed

lemma CopyCPUTensorToDevice_returns:
  assumes "d_xla d = Some h"
  shows "\<exists>d' h' w' acts st. CopyCPUTensorToDevice c e cpu d w = Returned (d', w') \<and>
     d_xla d' = Some h' \<and> d_shape d' = d_shape d \<and> d_dtype d' = d_dtype d \<and>
     trace w' = trace w @ acts @ [Done st] \<and> done_calls acts = [] \<and>
     (has_shaped_buffer h \<longrightarrow>
        shaped_buffer h' = shaped_buffer h \<and> \<not> list_ex is_allocation acts) \<and>
     (\<not> transfer_as_literal c \<longrightarrow>
        definition_event h' = definition_event h \<and> \<not> list_ex is_event_record acts)"
proof (cases "NumElements cpu = 0")
  case True
  with assms show ?thesis
    by (simp add: CopyCPUTensorToDevice_def emit_def)
next
  case ne: False
  show ?thesis
  proof (cases "shape_representation_fn c (d_shape d) (d_dtype d)")
    case (Inl err)
    with ne assms show ?thesis
      by (simp add: CopyCPUTensorToDevice_def emit_def Let_def)
  next
    case (Inr shape)
    show ?thesis
    proof (cases "\<not> has_shaped_buffer h \<and> (\<exists>err. allocation e = Inl err)")
      case True
      then obtain err where "allocation e = Inl err" and "\<not> has_shaped_buffer h" by blast
      with ne assms Inr show ?thesis
        by (simp add: CopyCPUTensorToDevice_def AllocateShapedBuffer_def emit_def Let_def)
    next
      case False
      then obtain base where alloc: "has_shaped_buffer h \<or> allocation e = Inr base"
        by (cases "allocation e") auto
      let ?pre = "[CallShapeRepresentationFn (d_shape d) (d_dtype d)] @
            (if has_shaped_buffer h then []
             else [AllocateShapedBufferCall (d_dtype d) shape (device_ordinal c)])"
      from reach_transfer[OF ne assms Inr alloc, of w] obtain x1 sb where
        eq: "CopyCPUTensorToDevice c e cpu d w =
           transfer_after_binding c e cpu d shape x1 (w\<lparr>trace := trace w @ ?pre\<rparr>)"
        and sb: "shaped_buffer x1 = Some sb" and ev: "definition_event x1 = definition_event h"
        and same: "has_shaped_buffer h \<Longrightarrow> x1 = h" by blast
      from transfer_after_binding_bound[OF sb, of c e cpu d shape "w\<lparr>trace := trace w @ ?pre\<rparr>"]
      obtain d' x' w' acts st where
        r: "transfer_after_binding c e cpu d shape x1 (w\<lparr>trace := trace w @ ?pre\<rparr>) = Returned (d', w')"
        and d': "d_xla d' = Some x'" "d_shape d' = d_shape d" "d_dtype d' = d_dtype d"
        and tr: "trace w' = trace (w\<lparr>trace := trace w @ ?pre\<rparr>) @ acts @ [Done st]"
        and dc: "done_calls acts = []" and sb': "shaped_buffer x' = Some sb"
        and al: "\<not> list_ex is_allocation acts"
        and raw: "\<not> transfer_as_literal c \<longrightarrow>
            definition_event x' = definition_event x1 \<and> \<not> list_ex is_event_record acts"
        by blast
      have t: "trace w' = trace w @ (?pre @ acts) @ [Done st]" using tr by simp
      have dc2: "done_calls (?pre @ acts) = []" using dc by (simp add: done_calls_append)
      have al2: "has_shaped_buffer h \<longrightarrow>
          shaped_buffer x' = shaped_buffer h \<and> \<not> list_ex is_allocation (?pre @ acts)"
        using al sb sb' same by auto
      have ev2: "\<not> transfer_as_literal c \<longrightarrow>
          definition_event x' = definition_event h \<and> \<not> list_ex is_event_record (?pre @ acts)"
        using raw ev by auto
      from eq r d' t dc2 al2 ev2 show ?thesis by metis
    qed
  qed
qed


lemma copies_invariant:
  assumes "d_xla d = Some h"
  shows "\<exists>ds w'. copies calls d w = Returned (ds, w') \<and> length ds = length calls \<and>
     (bound d \<longrightarrow> list_all (\<lambda>d'. buffer_of d' = buffer_of d) ds) \<and>
     (list_all (\<lambda>call. \<not> transfer_as_literal (fst call)) calls \<longrightarrow>
        list_all (\<lambda>d'. event_of d' = event_of d) ds) \<and>
     bindings (d # ds) \<le> 1 \<and> (bound d \<longrightarrow> bindings (d # ds) = 0) \<and>
     sorted_wrt (\<lambda>a b. bound a \<longrightarrow> buffer_of b = buffer_of a) (d # ds)"
  using assms
proof (induction calls arbitrary: d h w)
  case Nil
  then show ?case by simp
next
  case (Cons call rest)
  obtain c e t where call: "call = (c, e, t)" by (cases call) auto
  from CopyCPUTensorToDevice_returns[OF Cons.prems, of c e t w] obtain d1 h1 w1 where
    step: "CopyCPUTensorToDevice c e t d w = Returned (d1, w1)"
    and h1: "d_xla d1 = Some h1"
    and keep: "has_shaped_buffer h \<longrightarrow> shaped_buffer h1 = shaped_buffer h"
    and ev: "\<not> transfer_as_literal c \<longrightarrow> definition_event h1 = definition_event h"
    by blast
  from Cons.IH[OF h1, of w1] obtain ds w' where
    rest: "copies rest d1 w1 = Returned (ds, w')" and len: "length ds = length rest"
    and buf: "bound d1 \<longrightarrow> list_all (\<lambda>d'. buffer_of d' = buffer_of d1) ds"
    and evs: "list_all (\<lambda>call. \<not> transfer_as_literal (fst call)) rest \<longrightarrow>
        list_all (\<lambda>d'. event_of d' = event_of d1) ds"
    and b1: "bindings (d1 # ds) \<le> 1" and b0: "bound d1 \<longrightarrow> bindings (d1 # ds) = 0"
    and sw: "sorted_wrt (\<lambda>a b. bound a \<longrightarrow> buffer_of b = buffer_of a) (d1 # ds)"
    by blast
  have run: "copies (call # rest) d w = Returned (d1 # ds, w')"
    using call step rest by simp
  have kb: "bound d \<longrightarrow> buffer_of d1 = buffer_of d \<and> bound d1"
    using keep Cons.prems h1 by (auto simp: bound_def buffer_of_def has_shaped_buffer_def)
  have A: "bound d \<longrightarrow> list_all (\<lambda>d'. buffer_of d' = buffer_of d) (d1 # ds)"
    using kb buf by auto
  have B: "list_all (\<lambda>call. \<not> transfer_as_literal (fst call)) (call # rest) \<longrightarrow>
        list_all (\<lambda>d'. event_of d' = event_of d) (d1 # ds)"
    using ev evs call Cons.prems h1 by (auto simp: event_of_def)
  have C: "bindings (d # d1 # ds) \<le> 1 \<and> (bound d \<longrightarrow> bindings (d # d1 # ds) = 0)"
    using b1 b0 kb by auto
  have D: "sorted_wrt (\<lambda>a b. bound a \<longrightarrow> buffer_of b = buffer_of a) (d # d1 # ds)"
    using sw A by (auto simp: list_all_iff)
  from run len A B C D show ?case by simp
qed

subsection \<open>Empty values\<close>

text \<open>
  Claim C3. A host value with zero elements makes \<^verbatim>\<open>CopyCPUTensorToDevice\<close> run the
  callback with OK and return at once, and a device tensor with zero elements does the
  same for \<^verbatim>\<open>CopyDeviceTensorToCPU\<close>: the only new entry of the log is the callback, so
  the layout function is not called, nothing is allocated, no stream is touched, and
  the device tensor, the host buffer and the device memory are as before.
\<close>

theorem zero_element_copies_touch_nothing:
  "(NumElements cpu_tensor = 0 \<longrightarrow>
      CopyCPUTensorToDevice c e cpu_tensor device_tensor w =
        Returned (device_tensor, w\<lparr>trace := trace w @ [Done OK]\<rparr>)) \<and>
   (d_NumElements device_tensor = 0 \<longrightarrow>
      CopyDeviceTensorToCPU c e device_tensor host w =
        Returned (host, w\<lparr>trace := trace w @ [Done OK]\<rparr>))"
  by (simp add: CopyCPUTensorToDevice_def CopyDeviceTensorToCPU_def emit_def)

theorem zero_element_copies_touch_nothing_witness:
  "NumElements host_empty = 0 \<and> d_NumElements (dev_fresh [0]) = 0 \<and>
   CopyCPUTensorToDevice (ctx_multi True) answers_ok host_empty (dev_fresh [0]) world0 =
     Returned (dev_fresh [0], world0\<lparr>trace := trace world0 @ [Done OK]\<rparr>) \<and>
   CopyDeviceTensorToCPU (ctx_multi True) answers_ok (dev_fresh [0]) host_empty world0 =
     Returned (host_empty, world0\<lparr>trace := trace world0 @ [Done OK]\<rparr>)"
proof -
  note example_defs = input_defs host_empty_def
  have a: "NumElements host_empty = 0" by (simp add: example_defs)
  have b: "d_NumElements (dev_fresh [0]) = 0" by (simp add: example_defs)
  from zero_element_copies_touch_nothing
         [of host_empty "ctx_multi True" answers_ok "dev_fresh [0]" world0 host_empty] a b
  show ?thesis by simp
qed

subsection \<open>Failure of the layout function\<close>

text \<open>
  Claim C4. When the tensor is not empty and the layout function returns an error for
  the destination's shape and type, the callback receives exactly that error; the log
  gains only the call of the layout function and the callback, so no device buffer is
  allocated and no stream is touched, and the destination is left as it was.
\<close>

theorem layout_failure_stops_copy:
  assumes "NumElements cpu_tensor \<noteq> 0" "d_xla device_tensor = Some h"
    "shape_representation_fn c (d_shape device_tensor) (d_dtype device_tensor) = Inl err"
  shows "CopyCPUTensorToDevice c e cpu_tensor device_tensor w =
     Returned (device_tensor,
       w\<lparr>trace := trace w @
          [CallShapeRepresentationFn (d_shape device_tensor) (d_dtype device_tensor),
           Done (Failed err)]\<rparr>)"
  using assms by (simp add: CopyCPUTensorToDevice_def emit_def Let_def)

theorem layout_failure_stops_copy_witness:
  "NumElements host_ones \<noteq> 0 \<and> d_xla (dev_fresh [4]) = Some (AllocateRaw 64 0) \<and>
   rejecting_layout [4] 1 = Inl (Err INVALID_ARGUMENT [Str ''unsupported shape'']) \<and>
   CopyCPUTensorToDevice ((ctx_multi False)\<lparr>shape_representation_fn := rejecting_layout\<rparr>)
       answers_ok host_ones (dev_fresh [4]) world0 =
     Returned (dev_fresh [4],
       world0\<lparr>trace := [CallShapeRepresentationFn [4] 1,
                          Done (Failed (Err INVALID_ARGUMENT [Str ''unsupported shape'']))]\<rparr>)"
proof -
  note example_defs = input_defs rejecting_layout_def
  let ?c = "(ctx_multi False)\<lparr>shape_representation_fn := rejecting_layout\<rparr>"
  have a: "NumElements host_ones \<noteq> 0" by (simp add: example_defs)
  have b: "d_xla (dev_fresh [4]) = Some (AllocateRaw 64 0)" by (simp add: example_defs)
  have c: "shape_representation_fn ?c (d_shape (dev_fresh [4])) (d_dtype (dev_fresh [4])) =
      Inl (Err INVALID_ARGUMENT [Str ''unsupported shape''])"
    by (simp add: example_defs)
  from layout_failure_stops_copy[OF a b c, of answers_ok world0] a b
  show ?thesis by (simp add: example_defs)
qed

subsection \<open>Structured transfers to the device\<close>

text \<open>
  Claim C9. In structured mode, whenever the call gets as far as the literal transfer
  (layout resolved, buffer bound, host tensor reshaped and its XLA shape built), the
  log reads: calls that are no stream waits, then a wait of the host-to-device stream on
  the compute stream exactly when the context is multi-stream and
  \<^verbatim>\<open>CanShapedBufferBeAccessedNow\<close> answers false, then the asynchronous literal transfer
  on the host-to-device stream, then calls that are no stream waits. So the wait comes
  directly before the transfer when it is needed, and there is none when access is
  already guaranteed or the context is single-stream.
\<close>

theorem compute_wait_before_literal_transfer:
  assumes "transfer_as_literal c" "NumElements cpu \<noteq> 0" "d_xla d = Some h"
    "shape_representation_fn c (d_shape d) (d_dtype d) = Inr shape"
    "has_shaped_buffer h \<or> allocation e = Inr base"
    "CopyFrom cpu shape = Some reshaped"
    "TensorShapeToXLAShape e (t_dtype reshaped) (t_shape reshaped) = OK"
  shows "\<exists>d' w' pre post sb. CopyCPUTensorToDevice c e cpu d w = Returned (d', w') \<and>
     buffer_of d' = Some sb \<and>
     trace w' = trace w @ pre @
       (if UseMultipleStreams c \<and> \<not> CanShapedBufferBeAccessedNow e
        then [ThenWaitForStream (host_to_device_stream c) (compute_stream c)] else []) @
       [TransferLiteralToDeviceAsync (host_to_device_stream c) reshaped sb] @ post \<and>
     \<not> list_ex is_stream_wait pre \<and> \<not> list_ex is_stream_wait post"
proof -
  let ?pre = "[CallShapeRepresentationFn (d_shape d) (d_dtype d)] @
            (if has_shaped_buffer h then []
             else [AllocateShapedBufferCall (d_dtype d) shape (device_ordinal c)])"
  let ?wait = "if UseMultipleStreams c \<and> \<not> CanShapedBufferBeAccessedNow e
        then [ThenWaitForStream (host_to_device_stream c) (compute_stream c)] else []"
  from reach_transfer[OF assms(2-5), of w] obtain x1 sb where
    eq: "CopyCPUTensorToDevice c e cpu d w =
       transfer_after_binding c e cpu d shape x1 (w\<lparr>trace := trace w @ ?pre\<rparr>)"
    and sb: "shaped_buffer x1 = Some sb" by blast
  from TransferLiteralToDevice_issues[OF assms(7) sb, of c "w\<lparr>trace := trace w @ ?pre\<rparr>"]
  obtain st x2 w3 post where
    tl: "TransferLiteralToDevice c e reshaped x1 (w\<lparr>trace := trace w @ ?pre\<rparr>) = Returned (st, x2, w3)"
    and tr: "trace w3 = trace w @ ?pre @ ?wait @
       [TransferLiteralToDeviceAsync (host_to_device_stream c) reshaped sb] @ post"
    and post: "\<not> list_ex is_stream_wait post" and sb2: "shaped_buffer x2 = Some sb"
    by auto
  define x' where "x' = (if st = OK then set_host_tensor cpu x2 else x2)"
  define w' where
    "w' = w3\<lparr>trace := trace w3 @ (if st = OK then [SetHostTensor cpu] else []) @ [Done st]\<rparr>"
  have fc: "finish_copy cpu d st x2 w3 = Returned (d\<lparr>d_xla := Some x'\<rparr>, w')"
    by (simp add: finish_copy_eq x'_def w'_def)
  have sb': "shaped_buffer x' = shaped_buffer x2"
    by (simp add: x'_def set_host_tensor_def)
  have tr': "trace w' = trace w3 @ (if st = OK then [SetHostTensor cpu] else []) @ [Done st]"
    by (simp add: w'_def)
  have "CopyCPUTensorToDevice c e cpu d w = Returned (d\<lparr>d_xla := Some x'\<rparr>, w')"
    using eq assms(1,6) tl fc by (simp add: transfer_after_binding_def)
  moreover have "buffer_of (d\<lparr>d_xla := Some x'\<rparr>) = Some sb"
    using sb' sb2 by (simp add: buffer_of_def)
  moreover have "trace w' = trace w @ ?pre @ ?wait @
       [TransferLiteralToDeviceAsync (host_to_device_stream c) reshaped sb] @
       (post @ (if st = OK then [SetHostTensor cpu] else []) @ [Done st])"
    using tr tr' by simp
  moreover have "\<not> list_ex is_stream_wait ?pre" by simp
  moreover have
    "\<not> list_ex is_stream_wait (post @ (if st = OK then [SetHostTensor cpu] else []) @ [Done st])"
    using post by (auto simp: list_ex_iff)
  ultimately show ?thesis by blast
qed

theorem compute_wait_before_literal_transfer_witness:
  "transfer_as_literal (ctx_multi True) \<and> NumElements host_ones \<noteq> 0 \<and>
   d_xla (dev_fresh [4]) = Some (AllocateRaw 64 0) \<and>
   CopyFrom host_ones [4] = Some host_ones \<and>
   UseMultipleStreams (ctx_multi True) \<and> \<not> CanShapedBufferBeAccessedNow answers_ok \<and>
   (\<exists>d' w' pre post sb.
      CopyCPUTensorToDevice (ctx_multi True) answers_ok host_ones (dev_fresh [4]) world0 =
        Returned (d', w') \<and>
      buffer_of d' = Some sb \<and>
      trace w' = trace world0 @ pre @ [ThenWaitForStream 1 0] @
        [TransferLiteralToDeviceAsync 1 host_ones sb] @ post \<and>
      \<not> list_ex is_stream_wait pre \<and> \<not> list_ex is_stream_wait post) \<and>
   transfer_as_literal (ctx_single True) \<and> \<not> UseMultipleStreams (ctx_single True) \<and>
   (\<exists>d' w' pre post sb.
      CopyCPUTensorToDevice (ctx_single True) answers_ok host_ones (dev_fresh [4]) world0 =
        Returned (d', w') \<and>
      buffer_of d' = Some sb \<and>
      trace w' = trace world0 @ pre @ [TransferLiteralToDeviceAsync 0 host_ones sb] @ post \<and>
      \<not> list_ex is_stream_wait pre \<and> \<not> list_ex is_stream_wait post)"
proof -
  note example_defs = input_defs ctx_single_def
  have a: "transfer_as_literal (ctx_multi True)" by (simp add: example_defs)
  have b: "NumElements host_ones \<noteq> 0" by (simp add: example_defs)
  have c: "d_xla (dev_fresh [4]) = Some (AllocateRaw 64 0)" by (simp add: example_defs)
  have d: "shape_representation_fn (ctx_multi True) (d_shape (dev_fresh [4]))
             (d_dtype (dev_fresh [4])) = Inr [4]"
    by (simp add: example_defs)
  have e: "has_shaped_buffer (AllocateRaw 64 0) \<or> allocation answers_ok = Inr 4096"
    by (simp add: example_defs)
  have f: "CopyFrom host_ones [4] = Some host_ones" by (simp add: example_defs)
  have g: "TensorShapeToXLAShape answers_ok (t_dtype host_ones) (t_shape host_ones) = OK"
    by (simp add: example_defs)
  have m: "UseMultipleStreams (ctx_multi True) \<and> \<not> CanShapedBufferBeAccessedNow answers_ok"
    by (simp add: example_defs)
  have s: "host_to_device_stream (ctx_multi True) = 1 \<and> compute_stream (ctx_multi True) = 0"
    by (simp add: example_defs)
  have a': "transfer_as_literal (ctx_single True)" by (simp add: example_defs)
  have d': "shape_representation_fn (ctx_single True) (d_shape (dev_fresh [4]))
             (d_dtype (dev_fresh [4])) = Inr [4]"
    by (simp add: example_defs)
  have m': "\<not> UseMultipleStreams (ctx_single True)" by (simp add: example_defs)
  have s': "host_to_device_stream (ctx_single True) = 0" by (simp add: example_defs)
  from compute_wait_before_literal_transfer[OF a b c d e f g, of world0] m s
  have multi: "\<exists>d' w' pre post sb.
      CopyCPUTensorToDevice (ctx_multi True) answers_ok host_ones (dev_fresh [4]) world0 =
        Returned (d', w') \<and>
      buffer_of d' = Some sb \<and>
      trace w' = trace world0 @ pre @ [ThenWaitForStream 1 0] @
        [TransferLiteralToDeviceAsync 1 host_ones sb] @ post \<and>
      \<not> list_ex is_stream_wait pre \<and> \<not> list_ex is_stream_wait post"
    by simp
  from compute_wait_before_literal_transfer[OF a' b c d' e f g, of world0] m' s'
  have single: "\<exists>d' w' pre post sb.
      CopyCPUTensorToDevice (ctx_single True) answers_ok host_ones (dev_fresh [4]) world0 =
        Returned (d', w') \<and>
      buffer_of d' = Some sb \<and>
      trace w' = trace world0 @ pre @ [TransferLiteralToDeviceAsync 0 host_ones sb] @ post \<and>
      \<not> list_ex is_stream_wait pre \<and> \<not> list_ex is_stream_wait post"
    by simp
  from a b c f m multi a' m' single show ?thesis by blast
qed

text \<open>
  Claim C1, as the code has it. Take a non-empty structured copy to the device under a
  multi-stream context in which every step up to the event succeeds: the layout is
  resolved, the handle is bound (already, or by a successful allocation), the host
  tensor is reshaped, its XLA shape is built, the asynchronous literal transfer is
  accepted and the event is initialised. Then the call returns with the callback OK;
  the log ends with the transfer, the event recorded on the host-to-device stream and
  installed on the handle (\<^verbatim>\<open>ThenRecordEvent\<close>, \<^verbatim>\<open>ResetDefinitionEvent\<close>), the deferred
  release of the host tensor, the caching of the host value and the callback; the handle
  is bound and its definition event is that event, recorded on the host-to-device
  stream. Every later \<^verbatim>\<open>CopyDeviceTensorToCPU\<close> on that device tensor, from any state of
  the log, first calls \<^verbatim>\<open>WaitForDefinitionEventOnStream\<close> for that event on the
  device-to-host stream and only then issues the literal read on that stream.
\<close>

theorem definition_event_installed_then_awaited:
  assumes lit: "transfer_as_literal c" and multi: "UseMultipleStreams c"
    and ne: "NumElements x \<noteq> 0" and h: "d_xla d = Some h"
    and layout: "shape_representation_fn c (d_shape d) (d_dtype d) = Inr shape"
    and alloc: "has_shaped_buffer h \<or> allocation e = Inr base"
    and reshape: "CopyFrom x shape = Some reshaped"
    and xla: "TensorShapeToXLAShape e (t_dtype reshaped) (t_shape reshaped) = OK"
    and async: "TransferLiteralToDeviceAsync_status e = OK"
    and init: "event_Init e"
  shows "\<exists>d1 w1 h1 sb pre. CopyCPUTensorToDevice c e x d w = Returned (d1, w1) \<and>
     d_xla d1 = Some h1 \<and> shaped_buffer h1 = Some sb \<and>
     definition_event h1 = Some (new_event e, host_to_device_stream c) \<and>
     trace w1 = trace w @ pre @
       [TransferLiteralToDeviceAsync (host_to_device_stream c) reshaped sb,
        EventInit (new_event e),
        ThenRecordEvent (host_to_device_stream c) (new_event e),
        ResetDefinitionEvent (new_event e) (host_to_device_stream c),
        ThenDoHostCallback (host_to_device_stream c), SetHostTensor x, Done OK] \<and>
     (\<forall>e2 host w2. d_NumElements d1 \<noteq> 0 \<and> HostTensorToMutableBorrowingLiteral e2 = OK \<longrightarrow>
        CopyDeviceTensorToCPU c e2 d1 host w2 =
          Returned (host, w2\<lparr>trace := trace w2 @
            [WaitForDefinitionEventOnStream (Some (new_event e, host_to_device_stream c))
               (device_to_host_stream c),
             TransferLiteralFromDeviceCall (device_to_host_stream c) sb]\<rparr>))"
proof -
  let ?h2d = "host_to_device_stream c"
  let ?ev = "new_event e"
  let ?pre = "[CallShapeRepresentationFn (d_shape d) (d_dtype d)] @
            (if has_shaped_buffer h then []
             else [AllocateShapedBufferCall (d_dtype d) shape (device_ordinal c)])"
  let ?wait = "if \<not> CanShapedBufferBeAccessedNow e
        then [ThenWaitForStream ?h2d (compute_stream c)] else []"
  from reach_transfer[OF ne h layout alloc, of w] obtain x1 sb where
    eq: "CopyCPUTensorToDevice c e x d w =
       transfer_after_binding c e x d shape x1 (w\<lparr>trace := trace w @ ?pre\<rparr>)"
    and sb: "shaped_buffer x1 = Some sb" by blast
  let ?h1 = "set_host_tensor x (ResetDefinitionEvent_on ?ev ?h2d x1)"
  let ?d1 = "d\<lparr>d_xla := Some ?h1\<rparr>"
  let ?w1 = "w\<lparr>trace := trace w @ (?pre @ ?wait) @
          [TransferLiteralToDeviceAsync ?h2d reshaped sb, EventInit ?ev,
           ThenRecordEvent ?h2d ?ev, ResetDefinitionEvent ?ev ?h2d,
           ThenDoHostCallback ?h2d, SetHostTensor x, Done OK]\<rparr>"
  have run: "CopyCPUTensorToDevice c e x d w = Returned (?d1, ?w1)"
    unfolding eq using lit multi reshape xla async init sb
    by (simp add: transfer_after_binding_def TransferLiteralToDevice_def finish_copy_eq
                  emit_def Let_def)
  have a: "d_xla ?d1 = Some ?h1" by simp
  have b: "shaped_buffer ?h1 = Some sb"
    using sb by (simp add: set_host_tensor_def ResetDefinitionEvent_on_def)
  have c: "definition_event ?h1 = Some (?ev, ?h2d)"
    by (simp add: set_host_tensor_def ResetDefinitionEvent_on_def)
  have t: "trace ?w1 = trace w @ (?pre @ ?wait) @
          [TransferLiteralToDeviceAsync ?h2d reshaped sb, EventInit ?ev,
           ThenRecordEvent ?h2d ?ev, ResetDefinitionEvent ?ev ?h2d,
           ThenDoHostCallback ?h2d, SetHostTensor x, Done OK]"
    by simp
  have r: "\<forall>e2 host w2. d_NumElements ?d1 \<noteq> 0 \<and> HostTensorToMutableBorrowingLiteral e2 = OK \<longrightarrow>
        CopyDeviceTensorToCPU c e2 ?d1 host w2 =
          Returned (host, w2\<lparr>trace := trace w2 @
            [WaitForDefinitionEventOnStream (Some (?ev, ?h2d)) (device_to_host_stream c),
             TransferLiteralFromDeviceCall (device_to_host_stream c) sb]\<rparr>)"
    using b c lit
    by (simp add: CopyDeviceTensorToCPU_def TransferLiteralFromDevice_def emit_def Let_def)
  from run a b c t r show ?thesis by blast
qed

theorem definition_event_installed_then_awaited_witness:
  "transfer_as_literal (ctx_multi True) \<and> UseMultipleStreams (ctx_multi True) \<and>
   NumElements host_ones \<noteq> 0 \<and> d_xla (dev_fresh [4]) = Some (AllocateRaw 64 0) \<and>
   CopyFrom host_ones [4] = Some host_ones \<and>
   TransferLiteralToDeviceAsync_status answers_ok = OK \<and> event_Init answers_ok \<and>
   CopyCPUTensorToDevice (ctx_multi True) answers_ok host_ones (dev_fresh [4]) world0 =
     Returned (dev_written_literal, world_written_literal) \<and>
   event_of dev_written_literal = Some (7, 1) \<and>
   d_NumElements dev_written_literal \<noteq> 0 \<and>
   CopyDeviceTensorToCPU (ctx_multi True) answers_ok dev_written_literal host_zeros
       world_written_literal =
     Returned (host_zeros, world_written_literal\<lparr>trace := trace world_written_literal @
       [WaitForDefinitionEventOnStream (Some (7, 1)) 2, TransferLiteralFromDeviceCall 2 sb4]\<rparr>)"
proof -
  note example_defs = input_defs dev_written_literal_def world_written_literal_def host_zeros_def
  let ?c = "ctx_multi True"
  have a: "transfer_as_literal ?c" by (simp add: example_defs)
  have b: "UseMultipleStreams ?c" by (simp add: example_defs)
  have c: "NumElements host_ones \<noteq> 0" by (simp add: example_defs)
  have d: "d_xla (dev_fresh [4]) = Some (AllocateRaw 64 0)" by (simp add: example_defs)
  have l: "shape_representation_fn ?c (d_shape (dev_fresh [4])) (d_dtype (dev_fresh [4])) =
             Inr [4]"
    by (simp add: example_defs)
  have m: "has_shaped_buffer (AllocateRaw 64 0) \<or> allocation answers_ok = Inr 4096"
    by (simp add: example_defs)
  have n: "CopyFrom host_ones [4] = Some host_ones" by (simp add: example_defs)
  have p: "TensorShapeToXLAShape answers_ok (t_dtype host_ones) (t_shape host_ones) = OK"
    by (simp add: example_defs)
  have q: "TransferLiteralToDeviceAsync_status answers_ok = OK" by (simp add: example_defs)
  have i: "event_Init answers_ok" by (simp add: example_defs)
  have e: "CopyCPUTensorToDevice ?c answers_ok host_ones (dev_fresh [4]) world0 =
     Returned (dev_written_literal, world_written_literal)"
    by (simp add: run_defs example_defs)
  have g: "d_NumElements dev_written_literal \<noteq> 0 \<and>
           HostTensorToMutableBorrowingLiteral answers_ok = OK"
    by (simp add: example_defs)
  from definition_event_installed_then_awaited[OF a b c d l m n p q i, of world0]
  obtain d1 w1 h1 sb where
    run: "CopyCPUTensorToDevice ?c answers_ok host_ones (dev_fresh [4]) world0 = Returned (d1, w1)"
    and h1: "d_xla d1 = Some h1" and sb: "shaped_buffer h1 = Some sb"
    and ev: "definition_event h1 = Some (new_event answers_ok, host_to_device_stream ?c)"
    and later: "\<forall>e2 host w2. d_NumElements d1 \<noteq> 0 \<and>
        HostTensorToMutableBorrowingLiteral e2 = OK \<longrightarrow>
        CopyDeviceTensorToCPU ?c e2 d1 host w2 =
          Returned (host, w2\<lparr>trace := trace w2 @
            [WaitForDefinitionEventOnStream
               (Some (new_event answers_ok, host_to_device_stream ?c))
               (device_to_host_stream ?c),
             TransferLiteralFromDeviceCall (device_to_host_stream ?c) sb]\<rparr>)"
    by blast
  from run e have d1: "d1 = dev_written_literal" by simp
  have sb4: "sb = sb4" using h1 sb unfolding d1 by (auto simp: dev_written_literal_def)
  have ev': "event_of dev_written_literal = Some (7, 1)"
    using h1 ev unfolding d1 by (simp add: event_of_def example_defs)
  from later g have "CopyDeviceTensorToCPU ?c answers_ok dev_written_literal
       host_zeros world_written_literal =
     Returned (host_zeros, world_written_literal\<lparr>trace := trace world_written_literal @
       [WaitForDefinitionEventOnStream
          (Some (new_event answers_ok, host_to_device_stream ?c))
          (device_to_host_stream ?c),
        TransferLiteralFromDeviceCall (device_to_host_stream ?c) sb]\<rparr>)"
    unfolding d1 by blast
  then have f: "CopyDeviceTensorToCPU ?c answers_ok dev_written_literal
       host_zeros world_written_literal =
     Returned (host_zeros, world_written_literal\<lparr>trace := trace world_written_literal @
       [WaitForDefinitionEventOnStream (Some (7, 1)) 2, TransferLiteralFromDeviceCall 2 sb4]\<rparr>)"
    using sb4 by (simp add: ctx_multi_def answers_ok_def)
  from a b c d n q i e ev' g f show ?thesis by simp
qed

text \<open>
  The claim as first stated, for every such transfer that returns, fails where the
  event cannot be initialised: the literal transfer has been issued on the
  host-to-device stream and the call returns, but no event is recorded, the handle has
  no definition event, and a later copy from the device calls
  \<^verbatim>\<open>WaitForDefinitionEventOnStream\<close> on a handle without event before its read.
\<close>

theorem transfer_issued_without_definition_event_counterexample:
  "transfer_as_literal (ctx_multi True) \<and> UseMultipleStreams (ctx_multi True) \<and>
   NumElements host_ones \<noteq> 0 \<and>
   trace_of (CopyCPUTensorToDevice (ctx_multi True) answers_event_init_fails host_ones
      (dev_fresh [4]) world0) =
     Some [CallShapeRepresentationFn [4] 1, AllocateShapedBufferCall 1 [4] 0,
           ThenWaitForStream 1 0, TransferLiteralToDeviceAsync 1 host_ones sb4, EventInit 7,
           Done (Failed (RET_CHECK_failure ''event->Init()'' ''Event failed to initialize!''))] \<and>
   value_of (CopyCPUTensorToDevice (ctx_multi True) answers_event_init_fails host_ones
      (dev_fresh [4]) world0) = Some dev_after_init_failure \<and>
   event_of dev_after_init_failure = None \<and>
   trace_of (CopyDeviceTensorToCPU (ctx_multi True) answers_ok dev_after_init_failure
      host_zeros world0) =
     Some [WaitForDefinitionEventOnStream None 2, TransferLiteralFromDeviceCall 2 sb4]"
  by (simp add: run_defs input_defs answers_event_init_fails_def dev_after_init_failure_def
                host_zeros_def trace_of_def value_of_def event_of_def)

text \<open>
  Claim C10. In structured mode, when the layout is resolved and the handle is bound
  (already, or by a successful allocation) but \<^verbatim>\<open>Tensor::CopyFrom\<close> cannot view the
  host tensor under the resolved shape, the callback receives the INTERNAL error
  "Tensor::CopyFrom failed when copying from CPU to XLA device"; the log gains the layout
  call, the allocation if one was needed, and the callback, and no call on any stream.
\<close>

theorem reshape_failure_reported_without_transfer:
  assumes "transfer_as_literal c" "NumElements cpu \<noteq> 0" "d_xla d = Some h"
    "shape_representation_fn c (d_shape d) (d_dtype d) = Inr shape"
    "has_shaped_buffer h \<or> allocation e = Inr base"
    "CopyFrom cpu shape = None"
  shows "\<exists>d' w'. CopyCPUTensorToDevice c e cpu d w = Returned (d', w') \<and>
     trace w' = trace w @ [CallShapeRepresentationFn (d_shape d) (d_dtype d)] @
        (if has_shaped_buffer h then []
         else [AllocateShapedBufferCall (d_dtype d) shape (device_ordinal c)]) @
        [Done (Failed CopyFrom_failed)] \<and>
     \<not> list_ex touches_stream (new_actions w w') \<and>
     CopyFrom_failed =
       Err INTERNAL [Str ''Tensor::CopyFrom failed when copying from CPU to XLA device'']"
proof -
  from reach_transfer[OF assms(2-5), of w] obtain x1 where
    eq: "CopyCPUTensorToDevice c e cpu d w =
       transfer_after_binding c e cpu d shape x1
         (w\<lparr>trace := trace w @ [CallShapeRepresentationFn (d_shape d) (d_dtype d)] @
            (if has_shaped_buffer h then []
             else [AllocateShapedBufferCall (d_dtype d) shape (device_ordinal c)])\<rparr>)"
    by blast
  show ?thesis
    unfolding eq using assms(1,6)
    by (simp add: transfer_after_binding_def emit_def new_actions_def touches_stream_def
                  CopyFrom_failed_def)
qed

theorem reshape_failure_reported_without_transfer_witness:
  "transfer_as_literal ((ctx_multi True)\<lparr>shape_representation_fn := padding_layout\<rparr>) \<and>
   NumElements host_ones \<noteq> 0 \<and> d_xla (dev_fresh [4]) = Some (AllocateRaw 64 0) \<and>
   padding_layout [4] 1 = Inr [2, 4] \<and> CopyFrom host_ones [2, 4] = None \<and>
   (\<exists>d' w'.
      CopyCPUTensorToDevice ((ctx_multi True)\<lparr>shape_representation_fn := padding_layout\<rparr>)
        answers_ok host_ones (dev_fresh [4]) world0 = Returned (d', w') \<and>
      trace w' = [CallShapeRepresentationFn [4] 1, AllocateShapedBufferCall 1 [2, 4] 0,
                  Done (Failed CopyFrom_failed)] \<and>
      \<not> list_ex touches_stream (new_actions world0 w'))"
proof -
  note example_defs = input_defs padding_layout_def
  let ?c = "(ctx_multi True)\<lparr>shape_representation_fn := padding_layout\<rparr>"
  have a: "transfer_as_literal ?c" by (simp add: example_defs)
  have b: "NumElements host_ones \<noteq> 0" by (simp add: example_defs)
  have c: "d_xla (dev_fresh [4]) = Some (AllocateRaw 64 0)" by (simp add: example_defs)
  have d: "shape_representation_fn ?c (d_shape (dev_fresh [4])) (d_dtype (dev_fresh [4])) =
             Inr [2, 4]"
    by (simp add: example_defs)
  have e: "has_shaped_buffer (AllocateRaw 64 0) \<or> allocation answers_ok = Inr 4096"
    by (simp add: example_defs)
  have f: "CopyFrom host_ones [2, 4] = None" by (simp add: example_defs)
  have g: "padding_layout [4] 1 = Inr [2, 4]" by (simp add: example_defs)
  from reshape_failure_reported_without_transfer[OF a b c d e f, of world0]
  obtain d' w' where r: "CopyCPUTensorToDevice ?c answers_ok host_ones (dev_fresh [4]) world0 =
      Returned (d', w')"
    and t: "trace w' = trace world0 @
        [CallShapeRepresentationFn (d_shape (dev_fresh [4])) (d_dtype (dev_fresh [4]))] @
        (if has_shaped_buffer (AllocateRaw 64 0) then []
         else [AllocateShapedBufferCall (d_dtype (dev_fresh [4])) [2, 4] (device_ordinal ?c)]) @
        [Done (Failed CopyFrom_failed)]"
    and n: "\<not> list_ex touches_stream (new_actions world0 w')"
    by blast
  have t': "trace w' = [CallShapeRepresentationFn [4] 1, AllocateShapedBufferCall 1 [2, 4] 0,
                  Done (Failed CopyFrom_failed)]"
    using t by (simp add: example_defs)
  from a b c f g r t' n show ?thesis by blast
qed

text \<open>
  Claim C8, as the code has it. \<^verbatim>\<open>TF_RET_CHECK(event->Init())\<close> makes
  \<^verbatim>\<open>TransferLiteralToDevice\<close> return an INTERNAL status when the event cannot be
  initialised; \<^verbatim>\<open>CopyCPUTensorToDevice\<close> hands that status to the callback and returns.
  So, for a non-empty structured copy under a multi-stream context that has issued its
  literal transfer, a failing event initialisation ends the log with the transfer, the
  attempt to initialise the event and the callback carrying the INTERNAL error; no event
  is recorded, the handle's definition event is as before, and the call returns.
\<close>

theorem event_init_failure_reaches_callback:
  assumes "transfer_as_literal c" "UseMultipleStreams c" "NumElements cpu \<noteq> 0"
    "d_xla d = Some h"
    "shape_representation_fn c (d_shape d) (d_dtype d) = Inr shape"
    "has_shaped_buffer h \<or> allocation e = Inr base"
    "CopyFrom cpu shape = Some reshaped"
    "TensorShapeToXLAShape e (t_dtype reshaped) (t_shape reshaped) = OK"
    "TransferLiteralToDeviceAsync_status e = OK"
    "\<not> event_Init e"
  shows "\<exists>d' w' pre sb. CopyCPUTensorToDevice c e cpu d w = Returned (d', w') \<and>
     trace w' = trace w @ pre @
       [TransferLiteralToDeviceAsync (host_to_device_stream c) reshaped sb,
        EventInit (new_event e),
        Done (Failed (RET_CHECK_failure ''event->Init()'' ''Event failed to initialize!''))] \<and>
     error_code (RET_CHECK_failure ''event->Init()'' ''Event failed to initialize!'') = INTERNAL \<and>
     event_of d' = event_of d \<and> \<not> list_ex is_event_record (new_actions w w')"
proof -
  let ?pre = "[CallShapeRepresentationFn (d_shape d) (d_dtype d)] @
            (if has_shaped_buffer h then []
             else [AllocateShapedBufferCall (d_dtype d) shape (device_ordinal c)])"
  let ?wait = "if \<not> CanShapedBufferBeAccessedNow e
        then [ThenWaitForStream (host_to_device_stream c) (compute_stream c)] else []"
  let ?err = "RET_CHECK_failure ''event->Init()'' ''Event failed to initialize!''"
  from reach_transfer[OF assms(3-6), of w] obtain x1 sb where
    eq: "CopyCPUTensorToDevice c e cpu d w =
       transfer_after_binding c e cpu d shape x1 (w\<lparr>trace := trace w @ ?pre\<rparr>)"
    and sb: "shaped_buffer x1 = Some sb"
    and ev: "definition_event x1 = definition_event h" by blast
  have run: "CopyCPUTensorToDevice c e cpu d w =
      Returned (d\<lparr>d_xla := Some x1\<rparr>,
        w\<lparr>trace := trace w @ (?pre @ ?wait) @
          [TransferLiteralToDeviceAsync (host_to_device_stream c) reshaped sb,
           EventInit (new_event e), Done (Failed ?err)]\<rparr>)"
    unfolding eq using assms(1,2,7-10) sb
    by (simp add: transfer_after_binding_def TransferLiteralToDevice_def finish_copy_eq
                  emit_def Let_def)
  have "event_of (d\<lparr>d_xla := Some x1\<rparr>) = event_of d"
    using ev assms(4) by (simp add: event_of_def)
  moreover have "\<not> list_ex is_event_record ((?pre @ ?wait) @
          [TransferLiteralToDeviceAsync (host_to_device_stream c) reshaped sb,
           EventInit (new_event e), Done (Failed ?err)])"
    by simp
  moreover have "error_code ?err = INTERNAL" by (simp add: RET_CHECK_failure_def)
  ultimately show ?thesis
    unfolding run by (simp add: new_actions_def del: append_assoc list_ex_append)
qed

theorem event_init_failure_reaches_callback_witness:
  "transfer_as_literal (ctx_multi True) \<and> UseMultipleStreams (ctx_multi True) \<and>
   NumElements host_ones \<noteq> 0 \<and> d_xla (dev_fresh [4]) = Some (AllocateRaw 64 0) \<and>
   CopyFrom host_ones [4] = Some host_ones \<and> \<not> event_Init answers_event_init_fails \<and>
   (\<exists>d' w' pre sb.
      CopyCPUTensorToDevice (ctx_multi True) answers_event_init_fails host_ones (dev_fresh [4])
        world0 = Returned (d', w') \<and>
      trace w' = trace world0 @ pre @
        [TransferLiteralToDeviceAsync 1 host_ones sb, EventInit 7,
         Done (Failed (RET_CHECK_failure ''event->Init()'' ''Event failed to initialize!''))] \<and>
      event_of d' = event_of (dev_fresh [4]) \<and>
      \<not> list_ex is_event_record (new_actions world0 w'))"
proof -
  note example_defs = input_defs answers_event_init_fails_def
  let ?e = answers_event_init_fails
  have a: "transfer_as_literal (ctx_multi True)" by (simp add: example_defs)
  have b: "UseMultipleStreams (ctx_multi True)" by (simp add: example_defs)
  have c: "NumElements host_ones \<noteq> 0" by (simp add: example_defs)
  have d: "d_xla (dev_fresh [4]) = Some (AllocateRaw 64 0)" by (simp add: example_defs)
  have e: "shape_representation_fn (ctx_multi True) (d_shape (dev_fresh [4]))
             (d_dtype (dev_fresh [4])) = Inr [4]"
    by (simp add: example_defs)
  have f: "has_shaped_buffer (AllocateRaw 64 0) \<or> allocation ?e = Inr 4096"
    by (simp add: example_defs)
  have g: "CopyFrom host_ones [4] = Some host_ones" by (simp add: example_defs)
  have i: "TensorShapeToXLAShape ?e (t_dtype host_ones) (t_shape host_ones) = OK"
    by (simp add: example_defs)
  have j: "TransferLiteralToDeviceAsync_status ?e = OK" by (simp add: example_defs)
  have k: "\<not> event_Init ?e" by (simp add: example_defs)
  have s: "host_to_device_stream (ctx_multi True) = 1 \<and> new_event ?e = 7"
    by (simp add: example_defs)
  from event_init_failure_reaches_callback[OF a b c d e f g i j k, of world0] s a b c d g k
  show ?thesis by (simp; blast)
qed

theorem event_init_failure_aborts_counterexample:
  "transfer_as_literal (ctx_multi True) \<and> UseMultipleStreams (ctx_multi True) \<and>
   \<not> event_Init answers_event_init_fails \<and>
   CopyCPUTensorToDevice (ctx_multi True) answers_event_init_fails host_ones (dev_fresh [4])
     world0 \<noteq> Aborted \<and>
   map_option done_calls
     (trace_of (CopyCPUTensorToDevice (ctx_multi True) answers_event_init_fails host_ones
        (dev_fresh [4]) world0)) =
     Some [Failed (RET_CHECK_failure ''event->Init()'' ''Event failed to initialize!'')]"
  by (simp add: run_defs input_defs answers_event_init_fails_def trace_of_def)

subsection \<open>Errors of the blocking drain\<close>

text \<open>
  Claim C7, evaluated where it fails. In raw mode, with three distinct streams (compute
  0, host-to-device 1, device-to-host 2): when the drain of the host-to-device stream
  fails, \<^verbatim>\<open>CopyCPUTensorToDevice\<close> reports stream 1; when the drain of the device-to-host
  stream fails, \<^verbatim>\<open>CopyDeviceTensorToCPU\<close> formats its message with \<^verbatim>\<open>stream_.get()\<close>, so
  the status names the compute stream 0 and does not name stream 2, the one that
  failed.
\<close>

theorem from_device_failure_names_compute_stream:
  "compute_stream (ctx_multi False) = 0 \<and> host_to_device_stream (ctx_multi False) = 1 \<and>
   device_to_host_stream (ctx_multi False) = 2 \<and> \<not> transfer_as_literal (ctx_multi False) \<and>
   BlockHostUntilDone_status answers_h2d_fails 1 = Failed stream_error \<and>
   BlockHostUntilDone_status answers_d2h_fails 2 = Failed stream_error \<and>
   trace_of (CopyCPUTensorToDevice (ctx_multi False) answers_h2d_fails host_ones (dev_fresh [4])
      world0) =
     Some [CallShapeRepresentationFn [4] 1, AllocateShapedBufferCall 1 [4] 0,
           ThenMemcpyToDevice 1 4096 (t_bytes host_ones) 16, BlockHostUntilDone 1,
           Done (Failed (transfer_failed 1 stream_error))] \<and>
   names_stream 1 (Failed (transfer_failed 1 stream_error)) \<and>
   trace_of (CopyDeviceTensorToCPU (ctx_multi False) answers_d2h_fails dev_written_raw host_zeros
      world0) =
     Some [WaitForDefinitionEventOnStream None 2, ThenMemcpyToHost 2 4096 16,
           BlockHostUntilDone 2, Done (Failed (transfer_failed 0 stream_error))] \<and>
   names_stream 0 (Failed (transfer_failed 0 stream_error)) \<and>
   \<not> names_stream 2 (Failed (transfer_failed 0 stream_error))"
  by (simp add: run_defs input_defs answers_d2h_fails_def answers_h2d_fails_def
                stream_error_def dev_written_raw_def host_zeros_def trace_of_def
                names_stream_def transfer_failed_def)

subsection \<open>Raw byte copies\<close>

text \<open>
  Claim C5. In raw mode, on a device tensor that carries an XlaTensor:
  (1) a non-empty copy to the device whose layout is resolved and whose buffer is bound
  issues the byte copy on the host-to-device stream, blocks on that stream, and then
  runs the callback (after caching the host value when the drain succeeded), all before
  it returns; the callback's status is OK exactly when the drain is;
  (2) a non-empty copy from a bound handle calls \<^verbatim>\<open>WaitForDefinitionEventOnStream\<close>,
  issues the byte copy on the device-to-host stream, blocks on that stream and runs the
  callback before it returns;
  (3) every copy to the device returns with exactly one callback, as the last entry of
  the log, records no event, and leaves the handle's definition event as it was;
  (4) so does every sequence of raw copies to that destination.
\<close>

theorem raw_copies_block_and_record_no_event:
  assumes raw: "\<not> transfer_as_literal c" and h: "d_xla d = Some h"
  shows
   "(NumElements cpu \<noteq> 0 \<and> shape_representation_fn c (d_shape d) (d_dtype d) = Inr shape \<and>
     (has_shaped_buffer h \<or> allocation e = Inr base) \<longrightarrow>
       (\<exists>d' w' pre sb st. CopyCPUTensorToDevice c e cpu d w = Returned (d', w') \<and>
          buffer_of d' = Some sb \<and>
          trace w' = trace w @ pre @
            [ThenMemcpyToDevice (host_to_device_stream c) (sb_base sb) (t_bytes cpu) (TotalBytes cpu),
             BlockHostUntilDone (host_to_device_stream c)] @
            (if st = OK then [SetHostTensor cpu] else []) @ [Done st] \<and>
          \<not> list_ex touches_stream pre \<and>
          (st = OK \<longleftrightarrow> BlockHostUntilDone_status e (host_to_device_stream c) = OK))) \<and>
    (d_NumElements d \<noteq> 0 \<and> shaped_buffer h = Some sb' \<longrightarrow>
       (\<exists>host' w' st. CopyDeviceTensorToCPU c e d host w = Returned (host', w') \<and>
          trace w' = trace w @
            [WaitForDefinitionEventOnStream (definition_event h) (device_to_host_stream c),
             ThenMemcpyToHost (device_to_host_stream c) (sb_base sb') (TotalBytes host),
             BlockHostUntilDone (device_to_host_stream c), Done st] \<and>
          (st = OK \<longleftrightarrow> BlockHostUntilDone_status e (device_to_host_stream c) = OK))) \<and>
    (\<exists>d' w' acts st. CopyCPUTensorToDevice c e cpu d w = Returned (d', w') \<and>
       trace w' = trace w @ acts @ [Done st] \<and> done_calls acts = [] \<and>
       \<not> list_ex is_event_record acts \<and> event_of d' = event_of d) \<and>
    (list_all (\<lambda>call. \<not> transfer_as_literal (fst call)) calls \<longrightarrow>
       (\<exists>ds w'. copies calls d w = Returned (ds, w') \<and>
          list_all (\<lambda>d'. event_of d' = event_of d) ds))"
proof (intro conjI impI)
  assume a: "NumElements cpu \<noteq> 0 \<and> shape_representation_fn c (d_shape d) (d_dtype d) = Inr shape \<and>
     (has_shaped_buffer h \<or> allocation e = Inr base)"
  let ?h2d = "host_to_device_stream c"
  let ?pre = "[CallShapeRepresentationFn (d_shape d) (d_dtype d)] @
            (if has_shaped_buffer h then []
             else [AllocateShapedBufferCall (d_dtype d) shape (device_ordinal c)])"
  from a have ne: "NumElements cpu \<noteq> 0"
    and layout: "shape_representation_fn c (d_shape d) (d_dtype d) = Inr shape"
    and alloc: "has_shaped_buffer h \<or> allocation e = Inr base" by auto
  from reach_transfer[OF ne h layout alloc, of w] obtain x1 sb where
    eq: "CopyCPUTensorToDevice c e cpu d w =
       transfer_after_binding c e cpu d shape x1 (w\<lparr>trace := trace w @ ?pre\<rparr>)"
    and sb: "shaped_buffer x1 = Some sb" by blast
  have pre: "\<not> list_ex touches_stream ?pre" by (simp add: touches_stream_def)
  show "\<exists>d' w' pre sb st. CopyCPUTensorToDevice c e cpu d w = Returned (d', w') \<and>
          buffer_of d' = Some sb \<and>
          trace w' = trace w @ pre @
            [ThenMemcpyToDevice ?h2d (sb_base sb) (t_bytes cpu) (TotalBytes cpu),
             BlockHostUntilDone ?h2d] @
            (if st = OK then [SetHostTensor cpu] else []) @ [Done st] \<and>
          \<not> list_ex touches_stream pre \<and>
          (st = OK \<longleftrightarrow> BlockHostUntilDone_status e ?h2d = OK)"
  proof (cases "BlockHostUntilDone_status e ?h2d")
    case OK
    let ?d' = "d\<lparr>d_xla := Some (set_host_tensor cpu x1)\<rparr>"
    let ?w' = "w\<lparr>trace := trace w @ ?pre @
               [ThenMemcpyToDevice ?h2d (sb_base sb) (t_bytes cpu) (TotalBytes cpu),
                BlockHostUntilDone ?h2d, SetHostTensor cpu, Done OK],
             dev_mem := write_bytes (sb_base sb) (t_bytes cpu) (dev_mem w)\<rparr>"
    have r: "CopyCPUTensorToDevice c e cpu d w = Returned (?d', ?w')"
      unfolding eq raw_transfer_ok[OF raw sb OK] by simp
    have b: "buffer_of ?d' = Some sb" using sb by (simp add: buffer_of_def set_host_tensor_def)
    have t: "trace ?w' = trace w @ ?pre @
            [ThenMemcpyToDevice ?h2d (sb_base sb) (t_bytes cpu) (TotalBytes cpu),
             BlockHostUntilDone ?h2d] @
            (if OK = OK then [SetHostTensor cpu] else []) @ [Done OK]" by simp
    from r b t pre OK show ?thesis by blast
  next
    case (Failed block_err)
    let ?st = "Failed (transfer_failed ?h2d block_err)"
    let ?d' = "d\<lparr>d_xla := Some x1\<rparr>"
    let ?w' = "w\<lparr>trace := trace w @ ?pre @
               [ThenMemcpyToDevice ?h2d (sb_base sb) (t_bytes cpu) (TotalBytes cpu),
                BlockHostUntilDone ?h2d, Done ?st]\<rparr>"
    have r: "CopyCPUTensorToDevice c e cpu d w = Returned (?d', ?w')"
      unfolding eq raw_transfer_failed[OF raw sb Failed] by simp
    have b: "buffer_of ?d' = Some sb" using sb by (simp add: buffer_of_def)
    have t: "trace ?w' = trace w @ ?pre @
            [ThenMemcpyToDevice ?h2d (sb_base sb) (t_bytes cpu) (TotalBytes cpu),
             BlockHostUntilDone ?h2d] @
            (if ?st = OK then [SetHostTensor cpu] else []) @ [Done ?st]" by simp
    have s: "(?st = OK) = (BlockHostUntilDone_status e ?h2d = OK)" using Failed by simp
    from r b t pre s show ?thesis by blast
  qed
next
  assume a: "d_NumElements d \<noteq> 0 \<and> shaped_buffer h = Some sb'"
  show "\<exists>host' w' st. CopyDeviceTensorToCPU c e d host w = Returned (host', w') \<and>
          trace w' = trace w @
            [WaitForDefinitionEventOnStream (definition_event h) (device_to_host_stream c),
             ThenMemcpyToHost (device_to_host_stream c) (sb_base sb') (TotalBytes host),
             BlockHostUntilDone (device_to_host_stream c), Done st] \<and>
          (st = OK \<longleftrightarrow> BlockHostUntilDone_status e (device_to_host_stream c) = OK)"
    using a raw h
    by (cases "BlockHostUntilDone_status e (device_to_host_stream c)")
       (simp_all add: CopyDeviceTensorToCPU_def emit_def Let_def)
next
  from CopyCPUTensorToDevice_returns[OF h, of c e cpu w] raw
  obtain d' h' w' acts st where
    r: "CopyCPUTensorToDevice c e cpu d w = Returned (d', w')" and h': "d_xla d' = Some h'"
    and tr: "trace w' = trace w @ acts @ [Done st]" and dc: "done_calls acts = []"
    and ev: "definition_event h' = definition_event h" and ne: "\<not> list_ex is_event_record acts"
    by blast
  have "event_of d' = event_of d" using h h' ev by (simp add: event_of_def)
  with r tr dc ne
  show "\<exists>d' w' acts st. CopyCPUTensorToDevice c e cpu d w = Returned (d', w') \<and>
       trace w' = trace w @ acts @ [Done st] \<and> done_calls acts = [] \<and>
       \<not> list_ex is_event_record acts \<and> event_of d' = event_of d"
    by blast
next
  assume a: "list_all (\<lambda>call. \<not> transfer_as_literal (fst call)) calls"
  from copies_invariant[OF h, of calls w] a
  show "\<exists>ds w'. copies calls d w = Returned (ds, w') \<and>
          list_all (\<lambda>d'. event_of d' = event_of d) ds"
    by blast
qed


theorem raw_copies_block_and_record_no_event_witness:
  "\<not> transfer_as_literal (ctx_multi False) \<and>
   d_xla (dev_fresh [4]) = Some (AllocateRaw 64 0) \<and> NumElements host_ones \<noteq> 0 \<and>
   d_NumElements dev_written_raw \<noteq> 0 \<and> buffer_of dev_written_raw = Some sb4 \<and>
   list_all (\<lambda>call. \<not> transfer_as_literal (fst call)) three_copies \<and>
   (\<exists>d' w' pre sb st.
      CopyCPUTensorToDevice (ctx_multi False) answers_ok host_ones (dev_fresh [4]) world0 =
        Returned (d', w') \<and>
      buffer_of d' = Some sb \<and>
      trace w' = trace world0 @ pre @
         [ThenMemcpyToDevice 1 (sb_base sb) (t_bytes host_ones) (TotalBytes host_ones),
          BlockHostUntilDone 1] @ (if st = OK then [SetHostTensor host_ones] else []) @
         [Done st] \<and>
      \<not> list_ex touches_stream pre \<and> st = OK) \<and>
   (\<exists>host' w' st.
      CopyDeviceTensorToCPU (ctx_multi False) answers_ok dev_written_raw host_zeros world0 =
        Returned (host', w') \<and>
      trace w' = trace world0 @
         [WaitForDefinitionEventOnStream None 2, ThenMemcpyToHost 2 4096 16,
          BlockHostUntilDone 2, Done st] \<and> st = OK) \<and>
   (\<exists>ds w'. copies three_copies (dev_fresh [4]) world0 = Returned (ds, w') \<and>
      list_all (\<lambda>d'. event_of d' = None) ds)"
proof -
  note example_defs = input_defs three_copies_def answers_allocation_fails_def out_of_memory_def dev_written_raw_def host_zeros_def
  let ?c = "ctx_multi False"
  have a: "\<not> transfer_as_literal ?c" by (simp add: example_defs)
  have b: "d_xla (dev_fresh [4]) = Some (AllocateRaw 64 0)" by (simp add: example_defs)
  have c: "NumElements host_ones \<noteq> 0 \<and>
      shape_representation_fn ?c (d_shape (dev_fresh [4])) (d_dtype (dev_fresh [4])) = Inr [4] \<and>
      (has_shaped_buffer (AllocateRaw 64 0) \<or> allocation answers_ok = Inr 4096)"
    by (simp add: example_defs)
  have d: "list_all (\<lambda>call. \<not> transfer_as_literal (fst call)) three_copies"
    by (simp add: example_defs)
  have e: "d_xla dev_written_raw =
      Some \<lparr>shaped_buffer = Some sb4, definition_event = None, host_tensor = Some host_ones\<rparr>"
    by (simp add: dev_written_raw_def)
  have f: "d_NumElements dev_written_raw \<noteq> 0 \<and>
      shaped_buffer \<lparr>shaped_buffer = Some sb4, definition_event = None,
                      host_tensor = Some host_ones\<rparr> = Some sb4"
    by (simp add: example_defs)
  have g: "buffer_of dev_written_raw = Some sb4" by (simp add: buffer_of_def e)
  have k: "host_to_device_stream ?c = 1 \<and> device_to_host_stream ?c = 2 \<and>
      BlockHostUntilDone_status answers_ok 1 = OK \<and> BlockHostUntilDone_status answers_ok 2 = OK \<and>
      sb_base sb4 = 4096 \<and> TotalBytes host_zeros = 16 \<and> event_of (dev_fresh [4]) = None"
    by (simp add: example_defs event_of_def)
  note fresh = raw_copies_block_and_record_no_event
                 [OF a b, of host_ones "[4]" answers_ok 4096 world0 sb4 host_zeros three_copies]
  note written = raw_copies_block_and_record_no_event
                 [OF a e, of host_ones "[4]" answers_ok 4096 world0 sb4 host_zeros three_copies]
  from fresh c k have one: "\<exists>d' w' pre sb st.
      CopyCPUTensorToDevice ?c answers_ok host_ones (dev_fresh [4]) world0 = Returned (d', w') \<and>
      buffer_of d' = Some sb \<and>
      trace w' = trace world0 @ pre @
         [ThenMemcpyToDevice 1 (sb_base sb) (t_bytes host_ones) (TotalBytes host_ones),
          BlockHostUntilDone 1] @ (if st = OK then [SetHostTensor host_ones] else []) @
         [Done st] \<and>
      \<not> list_ex touches_stream pre \<and> st = OK"
    by (simp; blast)
  from written f k have two: "\<exists>host' w' st.
      CopyDeviceTensorToCPU ?c answers_ok dev_written_raw host_zeros world0 =
        Returned (host', w') \<and>
      trace w' = trace world0 @
         [WaitForDefinitionEventOnStream None 2, ThenMemcpyToHost 2 4096 16,
          BlockHostUntilDone 2, Done st] \<and> st = OK"
    by (simp; blast)
  from fresh d k have three: "\<exists>ds w'. copies three_copies (dev_fresh [4]) world0 = Returned (ds, w') \<and>
      list_all (\<lambda>d'. event_of d' = None) ds"
    by simp
  from a b c d f g one two three show ?thesis by blast
qed

text \<open>
  Claim C6. In raw mode, let a non-empty host value \<open>x\<close> be copied to a device tensor
  that is declared non-empty, with success, and let the device tensor then be copied,
  with success, into a host buffer of as many bytes as \<open>x\<close>. Then that buffer holds the
  bytes of \<open>x\<close>. (Device memory is a map from addresses to bytes; a drain that reports
  OK has performed the copy queued before it.)
\<close>

theorem raw_round_trip:
  assumes raw: "\<not> transfer_as_literal c" and ne: "NumElements x \<noteq> 0"
    and dne: "d_NumElements d \<noteq> 0" and h: "d_xla d = Some h"
    and store: "CopyCPUTensorToDevice c e1 x d w = Returned (d1, w1)"
    and ok1: "last (trace w1) = Done OK"
    and fetch: "CopyDeviceTensorToCPU c e2 d1 host w1 = Returned (host', w2)"
    and ok2: "last (trace w2) = Done OK"
    and size: "TotalBytes host = TotalBytes x"
  shows "t_bytes host' = t_bytes x"
proof -
  from success_reaches_transfer[OF ne h store ok1] obtain shape base where
    layout: "shape_representation_fn c (d_shape d) (d_dtype d) = Inr shape"
    and alloc: "has_shaped_buffer h \<or> allocation e1 = Inr base" by blast
  let ?pre = "[CallShapeRepresentationFn (d_shape d) (d_dtype d)] @
            (if has_shaped_buffer h then []
             else [AllocateShapedBufferCall (d_dtype d) shape (device_ordinal c)])"
  from reach_transfer[OF ne h layout alloc, of w] obtain x1 sb where
    eq: "CopyCPUTensorToDevice c e1 x d w =
       transfer_after_binding c e1 x d shape x1 (w\<lparr>trace := trace w @ ?pre\<rparr>)"
    and sb: "shaped_buffer x1 = Some sb" by blast
  have blk: "BlockHostUntilDone_status e1 (host_to_device_stream c) = OK"
  proof (cases "BlockHostUntilDone_status e1 (host_to_device_stream c)")
    case (Failed block_err)
    from store[unfolded eq raw_transfer_failed[OF raw sb Failed]] ok1
    show ?thesis by auto
  qed simp
  from store[unfolded eq raw_transfer_ok[OF raw sb blk]]
  have d1: "d1 = d\<lparr>d_xla := Some (set_host_tensor x x1)\<rparr>"
    and mem: "dev_mem w1 = write_bytes (sb_base sb) (t_bytes x) (dev_mem w)"
    by auto
  have d1ne: "d_NumElements d1 \<noteq> 0" using dne d1 by (simp add: d_NumElements_def)
  have d1x: "d_xla d1 = Some (set_host_tensor x x1)" using d1 by simp
  have sb1: "shaped_buffer (set_host_tensor x x1) = Some sb"
    using sb by (simp add: set_host_tensor_def)
  have blk2: "BlockHostUntilDone_status e2 (device_to_host_stream c) = OK"
  proof (cases "BlockHostUntilDone_status e2 (device_to_host_stream c)")
    case (Failed block_err)
    with fetch ok2 raw d1ne d1x sb1 show ?thesis
      by (auto simp: CopyDeviceTensorToCPU_def emit_def Let_def)
  qed simp
  from fetch raw d1ne d1x sb1 blk2
  have "host' = host\<lparr>t_bytes := read_bytes (dev_mem w1) (sb_base sb) (TotalBytes host)\<rparr>"
    by (auto simp: CopyDeviceTensorToCPU_def emit_def Let_def)
  then show ?thesis
    using mem size by (simp add: TotalBytes_def read_write_bytes)
qed



theorem raw_round_trip_witness:
  "\<not> transfer_as_literal (ctx_multi False) \<and> NumElements host_ones \<noteq> 0 \<and>
   d_NumElements (dev_fresh [4]) \<noteq> 0 \<and> d_xla (dev_fresh [4]) = Some (AllocateRaw 64 0) \<and>
   CopyCPUTensorToDevice (ctx_multi False) answers_ok host_ones (dev_fresh [4]) world0 =
     Returned (dev_written_raw, world_written_raw) \<and>
   last (trace world_written_raw) = Done OK \<and>
   TotalBytes host_zeros = TotalBytes host_ones \<and> t_bytes host_zeros \<noteq> t_bytes host_ones \<and>
   map_option done_calls
     (trace_of (CopyDeviceTensorToCPU (ctx_multi False) answers_ok dev_written_raw host_zeros
        world_written_raw)) = Some [OK, OK] \<and>
   map_option t_bytes
     (value_of (CopyDeviceTensorToCPU (ctx_multi False) answers_ok dev_written_raw host_zeros
        world_written_raw)) = Some (t_bytes host_ones)"
proof -
  note example_defs = input_defs dev_written_raw_def world_written_raw_def host_zeros_def
  let ?c = "ctx_multi False"
  let ?host' = "host_zeros\<lparr>t_bytes := read_bytes (dev_mem world_written_raw) 4096 16\<rparr>"
  let ?w2 = "world_written_raw\<lparr>trace := trace world_written_raw @
       [WaitForDefinitionEventOnStream None 2, ThenMemcpyToHost 2 4096 16,
        BlockHostUntilDone 2, Done OK]\<rparr>"
  have a: "\<not> transfer_as_literal ?c" by (simp add: example_defs)
  have b: "NumElements host_ones \<noteq> 0" by (simp add: example_defs)
  have c: "d_NumElements (dev_fresh [4]) \<noteq> 0" by (simp add: example_defs)
  have d: "d_xla (dev_fresh [4]) = Some (AllocateRaw 64 0)" by (simp add: example_defs)
  have e: "CopyCPUTensorToDevice ?c answers_ok host_ones (dev_fresh [4]) world0 =
     Returned (dev_written_raw, world_written_raw)"
    by (simp add: run_defs example_defs)
  have f: "last (trace world_written_raw) = Done OK" by (simp add: example_defs)
  have tb: "TotalBytes host_zeros = 16" by (simp add: TotalBytes_def host_zeros_def)
  have g: "CopyDeviceTensorToCPU ?c answers_ok dev_written_raw host_zeros world_written_raw =
     Returned (?host', ?w2)"
    by (simp add: CopyDeviceTensorToCPU_def emit_def Let_def ctx_multi_def answers_ok_def
                  dev_written_raw_def sb4_def d_NumElements_def num_elements_def tb)
  have i: "last (trace ?w2) = Done OK" by simp
  have j: "TotalBytes host_zeros = TotalBytes host_ones" by (simp add: example_defs)
  have k: "t_bytes host_zeros \<noteq> t_bytes host_ones" by (simp add: example_defs)
  have l: "map_option done_calls (trace_of (Returned (?host', ?w2))) = Some [OK, OK]"
    by (simp add: trace_of_def world_written_raw_def)
  from raw_round_trip[OF a b c d e f g i j]
  have "t_bytes ?host' = t_bytes host_ones" .
  then have m: "map_option t_bytes (value_of (Returned (?host', ?w2))) = Some (t_bytes host_ones)"
    by (simp add: value_of_def)
  from a b c d e f j k l m show ?thesis unfolding g by blast
qed

subsection \<open>Binding of the destination\<close>

text \<open>
  Claim C2. For a device tensor that carries an XlaTensor and any sequence of
  \<^verbatim>\<open>CopyCPUTensorToDevice\<close> calls on it: all calls return; along the successive states
  the handle goes from Empty to Bound at most once, and once a state is bound every
  later state has the same shaped buffer (same type, shape and device region). A call on
  a bound handle makes no allocation. A non-empty call on an unbound handle whose
  allocation fails gives the failure to the callback and leaves the handle unbound.
\<close>

theorem destination_bound_at_most_once:
  assumes "d_xla d = Some h"
  shows "(\<exists>ds w'. copies calls d w = Returned (ds, w') \<and> length ds = length calls \<and>
            bindings (d # ds) \<le> 1 \<and>
            sorted_wrt (\<lambda>a b. bound a \<longrightarrow> buffer_of b = buffer_of a) (d # ds)) \<and>
         (has_shaped_buffer h \<longrightarrow>
            (\<exists>d' w'. CopyCPUTensorToDevice c e cpu d w = Returned (d', w') \<and>
               buffer_of d' = buffer_of d \<and> \<not> list_ex is_allocation (new_actions w w'))) \<and>
         (\<not> has_shaped_buffer h \<and> NumElements cpu \<noteq> 0 \<and>
          shape_representation_fn c (d_shape d) (d_dtype d) = Inr shape \<and>
          allocation e = Inl err \<longrightarrow>
            (\<exists>d' w'. CopyCPUTensorToDevice c e cpu d w = Returned (d', w') \<and>
               trace w' = trace w @
                 [CallShapeRepresentationFn (d_shape d) (d_dtype d),
                  AllocateShapedBufferCall (d_dtype d) shape (device_ordinal c),
                  Done (Failed err)] \<and>
               d_xla d' = Some h \<and> buffer_of d' = None))"
proof (intro conjI impI)
  from copies_invariant[OF assms, of calls w]
  show "\<exists>ds w'. copies calls d w = Returned (ds, w') \<and> length ds = length calls \<and>
            bindings (d # ds) \<le> 1 \<and>
            sorted_wrt (\<lambda>a b. bound a \<longrightarrow> buffer_of b = buffer_of a) (d # ds)"
    by blast
next
  assume hb: "has_shaped_buffer h"
  from CopyCPUTensorToDevice_returns[OF assms, of c e cpu w] hb
  obtain d' h' w' acts st where
    r: "CopyCPUTensorToDevice c e cpu d w = Returned (d', w')" and h': "d_xla d' = Some h'"
    and tr: "trace w' = trace w @ acts @ [Done st]"
    and sb: "shaped_buffer h' = shaped_buffer h" and al: "\<not> list_ex is_allocation acts"
    by blast
  have "buffer_of d' = buffer_of d" using h' sb assms by (simp add: buffer_of_def)
  moreover have "\<not> list_ex is_allocation (new_actions w w')"
    using tr al by (simp add: new_actions_def)
  ultimately show "\<exists>d' w'. CopyCPUTensorToDevice c e cpu d w = Returned (d', w') \<and>
               buffer_of d' = buffer_of d \<and> \<not> list_ex is_allocation (new_actions w w')"
    using r by blast
next
  assume a: "\<not> has_shaped_buffer h \<and> NumElements cpu \<noteq> 0 \<and>
          shape_representation_fn c (d_shape d) (d_dtype d) = Inr shape \<and>
          allocation e = Inl err"
  with assms show "\<exists>d' w'. CopyCPUTensorToDevice c e cpu d w = Returned (d', w') \<and>
               trace w' = trace w @
                 [CallShapeRepresentationFn (d_shape d) (d_dtype d),
                  AllocateShapedBufferCall (d_dtype d) shape (device_ordinal c),
                  Done (Failed err)] \<and>
               d_xla d' = Some h \<and> buffer_of d' = None"
    by (simp add: CopyCPUTensorToDevice_def AllocateShapedBuffer_def emit_def Let_def
                  buffer_of_def has_shaped_buffer_def)
qed


theorem destination_bound_at_most_once_witness:
  "d_xla (dev_fresh [4]) = Some (AllocateRaw 64 0) \<and> \<not> has_shaped_buffer (AllocateRaw 64 0) \<and>
   NumElements host_ones \<noteq> 0 \<and> allocation answers_allocation_fails = Inl out_of_memory \<and>
   (\<exists>ds w'. copies three_copies (dev_fresh [4]) world0 = Returned (ds, w') \<and>
      length ds = length three_copies \<and> bindings (dev_fresh [4] # ds) \<le> 1) \<and>
   map_option (map buffer_of) (value_of (copies three_copies (dev_fresh [4]) world0)) =
     Some [None, Some sb4, Some sb4] \<and>
   (\<exists>d' w'. CopyCPUTensorToDevice (ctx_multi False) answers_allocation_fails host_ones
        (dev_fresh [4]) world0 = Returned (d', w') \<and>
      trace w' = [CallShapeRepresentationFn [4] 1, AllocateShapedBufferCall 1 [4] 0,
                  Done (Failed out_of_memory)] \<and>
      buffer_of d' = None) \<and>
   (\<exists>d' w'. CopyCPUTensorToDevice (ctx_multi False) (answers_ok\<lparr>allocation := Inr 8192\<rparr>)
        host_ones dev_written_raw world0 = Returned (d', w') \<and>
      buffer_of d' = Some sb4 \<and> \<not> list_ex is_allocation (new_actions world0 w'))"
proof -
  note example_defs = input_defs three_copies_def answers_allocation_fails_def out_of_memory_def dev_written_raw_def
  let ?c = "ctx_multi False"
  let ?h = "\<lparr>shaped_buffer = Some sb4, definition_event = None, host_tensor = Some host_ones\<rparr>"
  have a: "d_xla (dev_fresh [4]) = Some (AllocateRaw 64 0)" by (simp add: example_defs)
  have b: "\<not> has_shaped_buffer (AllocateRaw 64 0) \<and> NumElements host_ones \<noteq> 0 \<and>
      shape_representation_fn ?c (d_shape (dev_fresh [4])) (d_dtype (dev_fresh [4])) = Inr [4] \<and>
      allocation answers_allocation_fails = Inl out_of_memory"
    by (simp add: example_defs)
  have e: "d_xla dev_written_raw = Some ?h" by (simp add: dev_written_raw_def)
  have f: "has_shaped_buffer ?h" by (simp add: has_shaped_buffer_def)
  have g: "buffer_of dev_written_raw = Some sb4" by (simp add: buffer_of_def e)
  have v: "map_option (map buffer_of) (value_of (copies three_copies (dev_fresh [4]) world0)) =
     Some [None, Some sb4, Some sb4]"
    by (simp add: run_defs example_defs value_of_def buffer_of_def)
  note fresh = destination_bound_at_most_once
     [OF a, of three_copies world0 ?c answers_allocation_fails host_ones "[4]" out_of_memory]
  note written = destination_bound_at_most_once
     [OF e, of three_copies world0 ?c "answers_ok\<lparr>allocation := Inr 8192\<rparr>" host_ones "[4]"
        out_of_memory]
  from fresh have one: "\<exists>ds w'. copies three_copies (dev_fresh [4]) world0 = Returned (ds, w') \<and>
      length ds = length three_copies \<and> bindings (dev_fresh [4] # ds) \<le> 1"
    by blast
  from fresh b have two: "\<exists>d' w'. CopyCPUTensorToDevice ?c answers_allocation_fails host_ones
        (dev_fresh [4]) world0 = Returned (d', w') \<and>
      trace w' = [CallShapeRepresentationFn [4] 1, AllocateShapedBufferCall 1 [4] 0,
                  Done (Failed out_of_memory)] \<and>
      buffer_of d' = None"
    by (simp add: example_defs; blast)
  from written f g have three: "\<exists>d' w'. CopyCPUTensorToDevice ?c (answers_ok\<lparr>allocation := Inr 8192\<rparr>)
        host_ones dev_written_raw world0 = Returned (d', w') \<and>
      buffer_of d' = Some sb4 \<and> \<not> list_ex is_allocation (new_actions world0 w')"
    by simp
  from a b one v two three show ?thesis by blast
qed

end
